theory Spec2Isabelle
  imports Main
begin

section \<open>Data model\<close>

text \<open>
  Calendar dates (\<^verbatim>\<open>datetime.date\<close>, SQL \<^verbatim>\<open>DATE\<close>) are year, month and day.
  Their order is the chronological one, which on well-formed dates is the
  lexicographic order of the three components.
\<close>

datatype date = Date int int int

fun date_less :: "date \<Rightarrow> date \<Rightarrow> bool" where
  "date_less (Date y m d) (Date y' m' d') =
     (y < y' \<or> (y = y' \<and> (m < m' \<or> (m = m' \<and> d < d'))))"

text \<open>
  \<^verbatim>\<open>model/db_models.py\<close>: the \<^verbatim>\<open>Server\<close> table. The surrogate key \<^verbatim>\<open>id\<close> is assigned
  by the database and never read by the handlers; it is left out.
\<close>

record server =
  user_name :: string
  server_name :: string
  start_date :: date
  end_date :: date
  floating_ip :: string
  network_name :: string
  node_name :: string
  flavor_name :: string
  image_name :: string

text \<open>
  The other tables are declared outside the files at hand; their columns are
  the keyword arguments and attributes the handlers use.
\<close>

record container =
  c_user_name :: string
  container_name :: string
  c_start_date :: date
  c_end_date :: date
  c_image_name :: string
  password :: string
  ip :: string
  port :: string
  c_network_name :: string
  c_node_name :: string

record flavor =
  f_name :: string
  vcpu :: int
  f_ram :: int
  f_disk :: int
  f_is_default :: bool

record node_flavor =
  nf_node_name :: string
  nf_flavor_name :: string

record network =
  n_name :: string
  cidr :: string
  n_is_default :: bool

record node_network =
  nn_node_name :: string
  nn_network_name :: string

record db =
  servers :: "server list"
  containers :: "container list"
  flavors :: "flavor list"
  node_flavors :: "node_flavor list"
  networks :: "network list"
  node_networks :: "node_network list"

text \<open>Request bodies (\<^verbatim>\<open>ServerCreateRequestDTO\<close>, \<^verbatim>\<open>ContainerCreateRequestDTO\<close>,
  \<^verbatim>\<open>ContainerReturnRequestDTO\<close>), again by the attributes the handlers read.\<close>

record ServerCreateRequestDTO =
  q_user_name :: string
  q_server_name :: string
  q_start_date :: date
  q_end_date :: date
  q_network_name :: "string option"
  q_node_name :: string
  q_flavor_name :: string
  q_image_name :: string
  q_vcpus :: int
  q_ram :: int
  q_disk :: int
  q_subnet_cidr :: string

record ContainerCreateRequestDTO =
  k_user_name :: string
  k_container_name :: string
  k_start_date :: date
  k_end_date :: date
  k_image_name :: string
  k_password :: string
  k_network_name :: "string option"
  k_node_name :: string
  k_subnet_cidr :: string

record ContainerReturnRequestDTO =
  r_container_name :: string
  r_password :: string

section \<open>Exceptions, replies, the cloud provider\<close>

datatype exn =
    NoResultFound
  | MultipleResultsFound
  | PendingRollbackError
  | CommitError
  | ProviderError
  | AttributeError
  | UnboundLocalError
  | IndexError
  | KeyError
  | ValueError

text \<open>
  The message texts of the replies, by meaning:
  duplicate server name, custom flavor creation error, network isolation
  error, backend internal error, duplicate container name, wrong password,
  wrong credentials, extension done, server deleted, an exception occurred,
  and a reply carrying data or nothing.
\<close>

datatype message =
    ServerNameDuplicated
  | FlavorCreationError
  | NetworkIsolationError
  | BackendInternalError
  | ContainerNameDuplicated
  | PasswordMismatch
  | InvalidInformation
  | ExtensionDone
  | ServerDeleted
  | ExceptionOccurred
  | Payload

text \<open>A handler answers with an \<^verbatim>\<open>ApiResponse\<close>, an \<^verbatim>\<open>ErrorResponse\<close>, or lets an
  exception escape.\<close>

datatype reply =
    ApiResponse nat message
  | ErrorResponse nat message
  | Raised exn

text \<open>
  Calls on the controller. The controller the handlers are written against
  takes a node name with every call; \<^verbatim>\<open>network_isolation\<close> and \<^verbatim>\<open>network_delete\<close>
  are the helpers of \<^verbatim>\<open>util.backend_utils\<close>, which drive the controller.
\<close>

datatype cloud_call =
    CreateFlavor string string
  | DeleteFlavor string string
  | NetworkIsolation string string string
  | NetworkDelete string string
  | CreateServer string string
  | AllocateFloatingIp string string
  | DeleteServer string string
  | FindServer string string
  | CreateContainer string string
  | DeleteContainer string string

text \<open>What \<^verbatim>\<open>create_container\<close> hands back: the values of its \<^verbatim>\<open>addresses\<close>
  dictionary, in order, and its ports.\<close>

record zun_container =
  addresses :: "(string \<rightharpoonup> string) list list"
  ports :: string

text \<open>
  Everything outside the handlers is a parameter: the configuration
  (\<^verbatim>\<open>openstack_config\<close>, \<^verbatim>\<open>node_config\<close>), which provider calls raise, whether the
  database refuses what a commit flushes, what the provider returns, whether
  the provider still lists an instance right after its deletion was requested
  (and under which flavor), the SSH credential check, SHA-256, and \<^verbatim>\<open>int\<close> on
  strings.
\<close>

record env =
  external_network :: string
  default_internal_network :: string
  default_flavors :: "string list"
  nodes :: "string list"
  cloud_fails :: "cloud_call \<Rightarrow> bool"
  commit_fails :: bool
  allocated_ip :: "string \<Rightarrow> string"
  created_container :: "string \<Rightarrow> zun_container"
  lingering_flavor :: "string \<Rightarrow> string option"
  validate_ssh_key :: "string \<Rightarrow> string \<Rightarrow> string \<Rightarrow> string \<Rightarrow> bool"
  sha256_hexdigest :: "string \<Rightarrow> string"
  py_int :: "string \<Rightarrow> int option"

text \<open>
  The world a handler runs in: the committed database, the compute instances
  the provider holds (by name), the controller calls issued so far (oldest
  first), and the exceptions written to the backend log.
\<close>

record world =
  inventory :: db
  instances :: "string list"
  calls :: "cloud_call list"
  logged :: "exn list"

section \<open>Queries\<close>

text \<open>\<^verbatim>\<open>Result.one_or_none()\<close> and \<^verbatim>\<open>Result.one()\<close> on the rows a statement selects.\<close>

fun one_or_none :: "'a list \<Rightarrow> exn + 'a option" where
  "one_or_none [] = Inr None"
| "one_or_none [x] = Inr (Some x)"
| "one_or_none (x # y # zs) = Inl MultipleResultsFound"

fun one :: "'a list \<Rightarrow> exn + 'a" where
  "one [] = Inl NoResultFound"
| "one [x] = Inr x"
| "one (x # y # zs) = Inl MultipleResultsFound"

text \<open>
  The link queries of the rental handlers are written
  \<^verbatim>\<open>where(NodeFlavor.flavor_name == f and NodeFlavor.node_name == n)\<close>. Python's
  \<^verbatim>\<open>and\<close> takes the truth value of its left operand; for a column comparison
  that is the identity test of the two operands, which is false, so the
  expression is its left operand and the statement filters on the resource
  name only. The rollback of \<^verbatim>\<open>server_rent\<close> passes the two comparisons as two
  arguments of \<^verbatim>\<open>where\<close>, which conjoins them.
\<close>

definition links_by_flavor_name :: "string \<Rightarrow> db \<Rightarrow> node_flavor list" where
  "links_by_flavor_name f s = filter (\<lambda>l. nf_flavor_name l = f) (node_flavors s)"

definition links_by_network_name :: "string \<Rightarrow> db \<Rightarrow> node_network list" where
  "links_by_network_name n s = filter (\<lambda>l. nn_network_name l = n) (node_networks s)"

definition links_by_network_and_node :: "string \<Rightarrow> string \<Rightarrow> db \<Rightarrow> node_network list" where
  "links_by_network_and_node n node s =
     filter (\<lambda>l. nn_network_name l = n \<and> nn_node_name l = node) (node_networks s)"

text \<open>\<^verbatim>\<open>node_network.network.is_default\<close>: the relationship loads the network row
  of the link's name; without such a row the attribute access fails.\<close>

definition link_is_default :: "node_network \<Rightarrow> db \<Rightarrow> exn + bool" where
  "link_is_default l s =
     (case filter (\<lambda>n. n_name n = nn_network_name l) (networks s) of
        [] \<Rightarrow> Inl AttributeError
      | n # _ \<Rightarrow> Inr (n_is_default n))"

section \<open>Controller calls\<close>

text \<open>A call is written to the record of calls whether it raises or not.\<close>

definition invoke :: "env \<Rightarrow> cloud_call \<Rightarrow> world \<Rightarrow> exn option \<times> world" where
  "invoke e c w =
     ((if cloud_fails e c then Some ProviderError else None),
      w\<lparr>calls := calls w @ [c]\<rparr>)"

text \<open>
  \<^verbatim>\<open>OpenStackController.delete_server\<close>: \<^verbatim>\<open>find_server\<close> answers \<^verbatim>\<open>None\<close> for a name
  the provider does not hold, and the next line reads \<^verbatim>\<open>server.id\<close>. Otherwise
  the floating addresses and the server are deleted, which the provider may
  refuse.
\<close>

definition delete_server :: "env \<Rightarrow> string \<Rightarrow> string \<Rightarrow> world \<Rightarrow> exn option \<times> world" where
  "delete_server e nm node w =
     (let w1 = w\<lparr>calls := calls w @ [DeleteServer nm node]\<rparr> in
      if nm \<in> set (instances w) then
        (if cloud_fails e (DeleteServer nm node) then (Some ProviderError, w1)
         else (None, w1\<lparr>instances := removeAll nm (instances w1)\<rparr>))
      else (Some AttributeError, w1))"

text \<open>\<^verbatim>\<open>create_server\<close> as the handlers call it: once it has returned, the provider
  holds an instance of that name.\<close>

definition create_server :: "env \<Rightarrow> string \<Rightarrow> string \<Rightarrow> world \<Rightarrow> exn option \<times> world" where
  "create_server e nm node w =
     (case invoke e (CreateServer nm node) w of
        (Some x, w1) \<Rightarrow> (Some x, w1)
      | (None, w1) \<Rightarrow> (None, w1\<lparr>instances := instances w1 @ [nm]\<rparr>))"

text \<open>A loop of calls over a list of nodes stops at the first call that raises.\<close>

fun invoke_all :: "env \<Rightarrow> cloud_call list \<Rightarrow> world \<Rightarrow> exn option \<times> world" where
  "invoke_all e [] w = (None, w)"
| "invoke_all e (c # cs) w =
     (case invoke e c w of
        (Some x, w1) \<Rightarrow> (Some x, w1)
      | (None, w1) \<Rightarrow> invoke_all e cs w1)"

definition log_error :: "exn \<Rightarrow> world \<Rightarrow> world" where
  "log_error x w = w\<lparr>logged := logged w @ [x]\<rparr>"

section \<open>Server rental\<close>

text \<open>
  \<^verbatim>\<open>server_rent\<close>, first \<^verbatim>\<open>try\<close> block: the flavor row is added to the session when
  the name is unknown; the flavor is created on the node when no link row
  carries the flavor name. No link row is added. The session is returned as it
  stands when the block is left.
\<close>

definition server_rent_flavor ::
  "env \<Rightarrow> ServerCreateRequestDTO \<Rightarrow> db \<Rightarrow> world \<Rightarrow> exn option \<times> db \<times> world" where
  "server_rent_flavor e q s w =
     (case one_or_none (filter (\<lambda>f. f_name f = q_flavor_name q) (flavors s)) of
        Inl x \<Rightarrow> (Some x, s, w)
      | Inr r \<Rightarrow>
         (let s1 = (case r of
                      None \<Rightarrow> s\<lparr>flavors := flavors s @
                                [\<lparr>f_name = q_flavor_name q, vcpu = q_vcpus q, f_ram = q_ram q,
                                  f_disk = q_disk q, f_is_default = False\<rparr>]\<rparr>
                    | Some _ \<Rightarrow> s) in
          case one_or_none (links_by_flavor_name (q_flavor_name q) s1) of
            Inl x \<Rightarrow> (Some x, s1, w)
          | Inr (Some _) \<Rightarrow> (None, s1, w)
          | Inr None \<Rightarrow>
             (case invoke e (CreateFlavor (q_flavor_name q) (q_node_name q)) w of
                (x, w1) \<Rightarrow> (x, s1, w1))))"

text \<open>Its handler: log, roll back, delete the flavor on the node, answer 500.\<close>

definition server_rent_flavor_except ::
  "env \<Rightarrow> ServerCreateRequestDTO \<Rightarrow> exn \<Rightarrow> world \<Rightarrow> reply \<times> world" where
  "server_rent_flavor_except e q x w =
     (case invoke e (DeleteFlavor (q_flavor_name q) (q_node_name q)) (log_error x w) of
        (Some y, w1) \<Rightarrow> (Raised y, w1)
      | (None, w1) \<Rightarrow> (ErrorResponse 500 FlavorCreationError, w1))"

text \<open>
  The network block, the same text in \<^verbatim>\<open>server_rent\<close> and in the container's
  \<^verbatim>\<open>rental\<close>: add the network row when the name is unknown; when no link row
  carries the network name, isolate the network on the node and add the link.
\<close>

definition network_block ::
  "env \<Rightarrow> string \<Rightarrow> string \<Rightarrow> string \<Rightarrow> db \<Rightarrow> world \<Rightarrow> exn option \<times> db \<times> world" where
  "network_block e node n c s w =
     (case one_or_none (filter (\<lambda>r. n_name r = n) (networks s)) of
        Inl x \<Rightarrow> (Some x, s, w)
      | Inr r \<Rightarrow>
         (let s1 = (case r of
                      None \<Rightarrow> s\<lparr>networks := networks s @
                                [\<lparr>n_name = n, cidr = c, n_is_default = False\<rparr>]\<rparr>
                    | Some _ \<Rightarrow> s) in
          case one_or_none (links_by_network_name n s1) of
            Inl x \<Rightarrow> (Some x, s1, w)
          | Inr (Some _) \<Rightarrow> (None, s1, w)
          | Inr None \<Rightarrow>
             (case invoke e (NetworkIsolation node n c) w of
                (Some x, w1) \<Rightarrow> (Some x, s1, w1)
              | (None, w1) \<Rightarrow>
                 (None,
                  s1\<lparr>node_networks := node_networks s1 @
                        [\<lparr>nn_node_name = node, nn_network_name = n\<rparr>]\<rparr>,
                  w1))))"

text \<open>
  The undo of network isolation, run on the session as it stands: when the
  given link rows hold exactly one row and its network is not a default, the
  network is deleted on the node. A second row, a link without network row, or
  a failing deletion raise inside the handler.
\<close>

definition network_undo ::
  "env \<Rightarrow> string \<Rightarrow> string \<Rightarrow> node_network list \<Rightarrow> db \<Rightarrow> world \<Rightarrow> exn option \<times> world" where
  "network_undo e node n ls s w =
     (case one_or_none ls of
        Inl y \<Rightarrow> (Some y, w)
      | Inr None \<Rightarrow> (None, w)
      | Inr (Some l) \<Rightarrow>
         (case link_is_default l s of
            Inl y \<Rightarrow> (Some y, w)
          | Inr d \<Rightarrow> if d then (None, w) else invoke e (NetworkDelete node n) w))"

definition server_rent_network_except ::
  "env \<Rightarrow> ServerCreateRequestDTO \<Rightarrow> string \<Rightarrow> exn \<Rightarrow> db \<Rightarrow> world \<Rightarrow> reply \<times> world" where
  "server_rent_network_except e q n x s w =
     (case network_undo e (q_node_name q) n
             (links_by_network_and_node n (q_node_name q) s) s (log_error x w) of
        (Some y, w1) \<Rightarrow> (Raised y, w1)
      | (None, w1) \<Rightarrow> (ErrorResponse 500 NetworkIsolationError, w1))"

text \<open>
  The last \<^verbatim>\<open>try\<close> block. Its handler reads \<^verbatim>\<open>floating_ip\<close>, which is bound only
  once \<^verbatim>\<open>allocate_floating_ip\<close> has returned: after a failure of either provider
  call the handler itself raises, after the rollback and before
  \<^verbatim>\<open>delete_server\<close> is reached.
\<close>

definition server_rent_create ::
  "env \<Rightarrow> ServerCreateRequestDTO \<Rightarrow> string \<Rightarrow> db \<Rightarrow> world \<Rightarrow> reply \<times> world" where
  "server_rent_create e q n s w =
     (case create_server e (q_server_name q) (q_node_name q) w of
        (Some x, w1) \<Rightarrow> (Raised UnboundLocalError, log_error x w1)
      | (None, w1) \<Rightarrow>
         (case invoke e (AllocateFloatingIp (q_server_name q) (q_node_name q)) w1 of
            (Some x, w2) \<Rightarrow> (Raised UnboundLocalError, log_error x w2)
          | (None, w2) \<Rightarrow>
             (if commit_fails e then
                (case delete_server e (q_server_name q) (q_node_name q)
                        (log_error CommitError w2) of
                   (Some y, w3) \<Rightarrow> (Raised y, w3)
                 | (None, w3) \<Rightarrow> (ErrorResponse 500 BackendInternalError, w3))
              else
                (ApiResponse 201 Payload,
                 w2\<lparr>inventory := s\<lparr>servers := servers s @
                   [\<lparr>user_name = q_user_name q, server_name = q_server_name q,
                     start_date = q_start_date q, end_date = q_end_date q,
                     floating_ip = allocated_ip e (q_server_name q),
                     network_name = n, node_name = q_node_name q,
                     flavor_name = q_flavor_name q,
                     image_name = q_image_name q\<rparr>]\<rparr>\<rparr>))))"

definition server_rent :: "env \<Rightarrow> ServerCreateRequestDTO \<Rightarrow> world \<Rightarrow> reply \<times> world" where
  "server_rent e q w =
     (let n = (case q_network_name q of
                 None \<Rightarrow> default_internal_network e
               | Some m \<Rightarrow> m) in
      case one_or_none (filter (\<lambda>r. server_name r = q_server_name q) (servers (inventory w))) of
        Inl x \<Rightarrow> (Raised x, w)
      | Inr (Some _) \<Rightarrow> (ErrorResponse 400 ServerNameDuplicated, w)
      | Inr None \<Rightarrow>
         (case server_rent_flavor e q (inventory w) w of
            (Some x, s1, w1) \<Rightarrow> server_rent_flavor_except e q x w1
          | (None, s1, w1) \<Rightarrow>
             (case network_block e (q_node_name q) n (q_subnet_cidr q) s1 w1 of
                (Some x, s2, w2) \<Rightarrow> server_rent_network_except e q n x s2 w2
              | (None, s2, w2) \<Rightarrow> server_rent_create e q n s2 w2)))"

section \<open>Container rental\<close>

text \<open>\<^verbatim>\<open>list(container.addresses.values())[0][0]['addr']\<close>\<close>

definition first_address :: "zun_container \<Rightarrow> exn + string" where
  "first_address c =
     (case addresses c of
        [] \<Rightarrow> Inl IndexError
      | [] # _ \<Rightarrow> Inl IndexError
      | (d # _) # _ \<Rightarrow> (case d ''addr'' of None \<Rightarrow> Inl KeyError | Some a \<Rightarrow> Inr a))"

text \<open>
  The handler of \<^verbatim>\<open>rental\<close> queries the link (by network name) before it rolls
  back. A session whose flush or commit has failed refuses every statement
  until it is rolled back, so after a failed commit that query raises.
\<close>

definition rental_except ::
  "env \<Rightarrow> ContainerCreateRequestDTO \<Rightarrow> string \<Rightarrow> exn \<Rightarrow> db \<Rightarrow> world \<Rightarrow> reply \<times> world" where
  "rental_except e k n x s w =
     (if x = CommitError then (Raised PendingRollbackError, log_error x w)
      else
        (case network_undo e (k_node_name k) n (links_by_network_name n s) s (log_error x w) of
           (Some y, w1) \<Rightarrow> (Raised y, w1)
         | (None, w1) \<Rightarrow>
            (case invoke e (DeleteContainer (k_container_name k) (k_node_name k)) w1 of
               (Some y, w2) \<Rightarrow> (Raised y, w2)
             | (None, w2) \<Rightarrow> (ErrorResponse 500 BackendInternalError, w2))))"

definition rental_create ::
  "env \<Rightarrow> ContainerCreateRequestDTO \<Rightarrow> string \<Rightarrow> db \<Rightarrow> world \<Rightarrow> reply \<times> world" where
  "rental_create e k n s w =
     (case invoke e (CreateContainer (k_container_name k) (k_node_name k)) w of
        (Some x, w1) \<Rightarrow> rental_except e k n x s w1
      | (None, w1) \<Rightarrow>
         (case first_address (created_container e (k_container_name k)) of
            Inl x \<Rightarrow> rental_except e k n x s w1
          | Inr a \<Rightarrow>
             (if commit_fails e then rental_except e k n CommitError s w1
              else
                (ApiResponse 201 Payload,
                 w1\<lparr>inventory := s\<lparr>containers := containers s @
                   [\<lparr>c_user_name = k_user_name k, container_name = k_container_name k,
                     c_start_date = k_start_date k, c_end_date = k_end_date k,
                     c_image_name = k_image_name k,
                     password = sha256_hexdigest e (k_password k),
                     ip = a,
                     port = ports (created_container e (k_container_name k)),
                     c_network_name = n, c_node_name = k_node_name k\<rparr>]\<rparr>\<rparr>))))"

text \<open>In \<^verbatim>\<open>rental\<close> the network block stands outside any \<^verbatim>\<open>try\<close>.\<close>

definition rental :: "env \<Rightarrow> ContainerCreateRequestDTO \<Rightarrow> world \<Rightarrow> reply \<times> world" where
  "rental e k w =
     (let n = (case k_network_name k of
                 None \<Rightarrow> external_network e
               | Some m \<Rightarrow> m) in
      case one_or_none (filter (\<lambda>r. container_name r = k_container_name k)
                          (containers (inventory w))) of
        Inl x \<Rightarrow> (Raised x, w)
      | Inr (Some _) \<Rightarrow> (ErrorResponse 400 ContainerNameDuplicated, w)
      | Inr None \<Rightarrow>
         (case network_block e (k_node_name k) n (k_subnet_cidr k) (inventory w) w of
            (Some x, s1, w1) \<Rightarrow> (Raised x, w1)
          | (None, s1, w1) \<Rightarrow> rental_create e k n s1 w1))"

section \<open>Container return\<close>

text \<open>
  Second half of \<^verbatim>\<open>container_return\<close>, after the container row is deleted and
  committed: the network of the container is removed, on every node that holds
  a link, when no server and no container names it and it is not a default.
  An exception leaves the second transaction uncommitted.
\<close>

definition container_return_network :: "env \<Rightarrow> string \<Rightarrow> world \<Rightarrow> reply \<times> world" where
  "container_return_network e n w =
     (let s = inventory w in
      case one (filter (\<lambda>r. n_name r = n) (networks s)) of
        Inl x \<Rightarrow> (ErrorResponse 500 BackendInternalError, log_error x w)
      | Inr nw \<Rightarrow>
         (if length (filter (\<lambda>r. network_name r = n) (servers s)) +
               length (filter (\<lambda>r. c_network_name r = n) (containers s)) = 0
             \<and> \<not> n_is_default nw
          then
            (case invoke_all e
                    (map (\<lambda>l. NetworkDelete (nn_node_name l) (nn_network_name l))
                       (links_by_network_name n s)) w of
               (Some x, w1) \<Rightarrow> (ErrorResponse 500 BackendInternalError, log_error x w1)
             | (None, w1) \<Rightarrow>
                (ApiResponse 200 Payload,
                 w1\<lparr>inventory := s\<lparr>node_networks :=
                                      filter (\<lambda>l. nn_network_name l \<noteq> n) (node_networks s),
                                    networks := remove1 nw (networks s)\<rparr>\<rparr>))
          else (ApiResponse 200 Payload, w)))"

definition container_return :: "env \<Rightarrow> ContainerReturnRequestDTO \<Rightarrow> world \<Rightarrow> reply \<times> world" where
  "container_return e r w =
     (case one (filter (\<lambda>c. container_name c = r_container_name r)
                  (containers (inventory w))) of
        Inl x \<Rightarrow> (ErrorResponse 500 BackendInternalError, log_error x w)
      | Inr c \<Rightarrow>
         (if sha256_hexdigest e (r_password r) \<noteq> password c
          then (ErrorResponse 400 PasswordMismatch, w)
          else
            (case invoke e (DeleteContainer (r_container_name r) (c_node_name c)) w of
               (Some x, w1) \<Rightarrow> (ErrorResponse 500 BackendInternalError, log_error x w1)
             | (None, w1) \<Rightarrow>
                (if commit_fails e
                 then (ErrorResponse 500 BackendInternalError, log_error CommitError w1)
                 else container_return_network e (c_network_name c)
                        (w1\<lparr>inventory := (inventory w1)\<lparr>containers :=
                               remove1 c (containers (inventory w1))\<rparr>\<rparr>)))))"

section \<open>Server return and extension\<close>

text \<open>
  The tail of \<^verbatim>\<open>server_return\<close>, after the server row is deleted and committed.
  It looks the server up at the provider again and reads its flavor; a server
  the provider no longer lists makes the attribute access fail. The flavor and
  the network are protected by the configured names, not by the rows' flags.
\<close>

definition server_return_flavor :: "env \<Rightarrow> string \<Rightarrow> world \<Rightarrow> exn option \<times> world" where
  "server_return_flavor e fl w =
     (if fl \<in> set (default_flavors e) then (None, w)
      else
        (case one_or_none (filter (\<lambda>r. flavor_name r = fl) (servers (inventory w))) of
           Inl x \<Rightarrow> (Some x, w)
         | Inr (Some _) \<Rightarrow> (None, w)
         | Inr None \<Rightarrow> invoke_all e (map (\<lambda>node. DeleteFlavor fl node) (nodes e)) w))"

definition server_return_network :: "env \<Rightarrow> string \<Rightarrow> world \<Rightarrow> exn option \<times> world" where
  "server_return_network e n w =
     (if n = external_network e \<or> n = default_internal_network e then (None, w)
      else
        (case one_or_none (filter (\<lambda>r. network_name r = n) (servers (inventory w))) of
           Inl x \<Rightarrow> (Some x, w)
         | Inr (Some _) \<Rightarrow> (None, w)
         | Inr None \<Rightarrow>
            (case one_or_none (filter (\<lambda>r. c_network_name r = n) (containers (inventory w))) of
               Inl x \<Rightarrow> (Some x, w)
             | Inr (Some _) \<Rightarrow> (None, w)
             | Inr None \<Rightarrow> invoke_all e (map (\<lambda>node. NetworkDelete node n) (nodes e)) w)))"

definition server_return_release :: "env \<Rightarrow> server \<Rightarrow> world \<Rightarrow> reply \<times> world" where
  "server_return_release e sv w =
     (case invoke e (FindServer (server_name sv) (node_name sv)) w of
        (Some x, w1) \<Rightarrow> (ErrorResponse 500 BackendInternalError, log_error x w1)
      | (None, w1) \<Rightarrow>
         (case lingering_flavor e (server_name sv) of
            None \<Rightarrow> (ErrorResponse 500 BackendInternalError, log_error AttributeError w1)
          | Some fl \<Rightarrow>
             (case server_return_flavor e fl w1 of
                (Some x, w2) \<Rightarrow> (ErrorResponse 500 BackendInternalError, log_error x w2)
              | (None, w2) \<Rightarrow>
                 (case server_return_network e (network_name sv) w2 of
                    (Some x, w3) \<Rightarrow> (ErrorResponse 500 BackendInternalError, log_error x w3)
                  | (None, w3) \<Rightarrow> (ApiResponse 200 ServerDeleted, w3)))))"

text \<open>\<^verbatim>\<open>server_return(server_name, host_ip, password, key_file)\<close>\<close>

definition server_return ::
  "env \<Rightarrow> string \<Rightarrow> string \<Rightarrow> string \<Rightarrow> string \<Rightarrow> world \<Rightarrow> reply \<times> world" where
  "server_return e nm host pw key w =
     (if validate_ssh_key e host nm key pw then
        (case one (filter (\<lambda>r. server_name r = nm) (servers (inventory w))) of
           Inl x \<Rightarrow> (ErrorResponse 500 BackendInternalError, log_error x w)
         | Inr sv \<Rightarrow>
            (case delete_server e nm (node_name sv) w of
               (Some x, w1) \<Rightarrow> (ErrorResponse 500 BackendInternalError, log_error x w1)
             | (None, w1) \<Rightarrow>
                (if commit_fails e
                 then (ErrorResponse 500 BackendInternalError, log_error CommitError w1)
                 else server_return_release e sv
                        (w1\<lparr>inventory := (inventory w1)\<lparr>servers :=
                               remove1 sv (servers (inventory w1))\<rparr>\<rparr>))))
      else (ErrorResponse 400 InvalidInformation, w))"

text \<open>
  \<^verbatim>\<open>end_date.split(sep='-')\<close>, then \<^verbatim>\<open>date(int(..[0]), int(..[1]), int(..[2]))\<close>:
  a missing part is an \<^verbatim>\<open>IndexError\<close>, a part that is no integer or a date that
  does not exist a \<^verbatim>\<open>ValueError\<close>.
\<close>

fun split_dash :: "string \<Rightarrow> string list" where
  "split_dash [] = [ [] ]"
| "split_dash (c # cs) =
     (if c = CHR ''-'' then [] # split_dash cs
      else (case split_dash cs of
              [] \<Rightarrow> [ [c] ]
            | p # ps \<Rightarrow> (c # p) # ps))"

definition is_leap :: "int \<Rightarrow> bool" where
  "is_leap y = (if y mod 100 = 0 then y mod 400 = 0 else y mod 4 = 0)"

definition days_in_month :: "int \<Rightarrow> int \<Rightarrow> int" where
  "days_in_month y m =
     (if m = 2 then (if is_leap y then 29 else 28)
      else if m = 4 \<or> m = 6 \<or> m = 9 \<or> m = 11 then 30 else 31)"

definition make_date :: "int \<Rightarrow> int \<Rightarrow> int \<Rightarrow> exn + date" where
  "make_date y m d =
     (if 1 \<le> y \<and> y \<le> 9999 \<and> 1 \<le> m \<and> m \<le> 12 \<and> 1 \<le> d \<and> d \<le> days_in_month y m
      then Inr (Date y m d) else Inl ValueError)"

definition parse_date :: "env \<Rightarrow> string \<Rightarrow> exn + date" where
  "parse_date e str =
     (case split_dash str of
        [] \<Rightarrow> Inl IndexError
      | a # rest \<Rightarrow>
         (case py_int e a of
            None \<Rightarrow> Inl ValueError
          | Some y \<Rightarrow>
             (case rest of
                [] \<Rightarrow> Inl IndexError
              | b # rest' \<Rightarrow>
                 (case py_int e b of
                    None \<Rightarrow> Inl ValueError
                  | Some m \<Rightarrow>
                     (case rest' of
                        [] \<Rightarrow> Inl IndexError
                      | c # _ \<Rightarrow>
                         (case py_int e c of
                            None \<Rightarrow> Inl ValueError
                          | Some d \<Rightarrow> make_date y m d))))))"

text \<open>\<^verbatim>\<open>server_renew(server_name, host_ip, end_date, password, key_file)\<close> of
  \<^verbatim>\<open>server_router\<close>.\<close>

definition server_renew ::
  "env \<Rightarrow> string \<Rightarrow> string \<Rightarrow> string \<Rightarrow> string \<Rightarrow> string \<Rightarrow> world \<Rightarrow> reply \<times> world" where
  "server_renew e nm host ed pw key w =
     (if validate_ssh_key e host nm key pw then
        (case one (filter (\<lambda>r. server_name r = nm) (servers (inventory w))) of
           Inl x \<Rightarrow> (ErrorResponse 500 BackendInternalError, log_error x w)
         | Inr sv \<Rightarrow>
            (case parse_date e ed of
               Inl x \<Rightarrow> (ErrorResponse 500 BackendInternalError, log_error x w)
             | Inr d \<Rightarrow>
                (if commit_fails e
                 then (ErrorResponse 500 BackendInternalError, log_error CommitError w)
                 else
                   (ApiResponse 200 ExtensionDone,
                    w\<lparr>inventory := (inventory w)\<lparr>servers :=
                         map (\<lambda>r. if server_name r = nm then r\<lparr>end_date := d\<rparr> else r)
                           (servers (inventory w))\<rparr>\<rparr>))))
      else (ErrorResponse 400 InvalidInformation, w))"

text \<open>\<^verbatim>\<open>server_renew\<close> of \<^verbatim>\<open>db_router\<close>: the same steps; the handler is a bare
  \<^verbatim>\<open>except\<close> that does not log, and every reply is an \<^verbatim>\<open>ApiResponse\<close>.\<close>

definition db_server_renew ::
  "env \<Rightarrow> string \<Rightarrow> string \<Rightarrow> string \<Rightarrow> string \<Rightarrow> string \<Rightarrow> world \<Rightarrow> reply \<times> world" where
  "db_server_renew e nm host ed pw key w =
     (if validate_ssh_key e host nm key pw then
        (case one (filter (\<lambda>r. server_name r = nm) (servers (inventory w))) of
           Inl x \<Rightarrow> (ApiResponse 500 ExceptionOccurred, w)
         | Inr sv \<Rightarrow>
            (case parse_date e ed of
               Inl x \<Rightarrow> (ApiResponse 500 ExceptionOccurred, w)
             | Inr d \<Rightarrow>
                (if commit_fails e then (ApiResponse 500 ExceptionOccurred, w)
                 else
                   (ApiResponse 200 ExtensionDone,
                    w\<lparr>inventory := (inventory w)\<lparr>servers :=
                         map (\<lambda>r. if server_name r = nm then r\<lparr>end_date := d\<rparr> else r)
                           (servers (inventory w))\<rparr>\<rparr>))))
      else (ApiResponse 400 InvalidInformation, w))"

section \<open>The expiry sweep\<close>

text \<open>
  \<^verbatim>\<open>delete_expired_data\<close>: both lists are read once, then each row is deleted in
  the session and its instance at the provider. There is no \<^verbatim>\<open>try\<close>: an
  exception leaves the \<^verbatim>\<open>with\<close> block, which rolls the transaction back.
\<close>

fun delete_expired_servers ::
  "env \<Rightarrow> server list \<Rightarrow> db \<Rightarrow> world \<Rightarrow> exn option \<times> db \<times> world" where
  "delete_expired_servers e [] s w = (None, s, w)"
| "delete_expired_servers e (sv # svs) s w =
     (case delete_server e (server_name sv) (node_name sv) w of
        (Some x, w1) \<Rightarrow> (Some x, s\<lparr>servers := remove1 sv (servers s)\<rparr>, w1)
      | (None, w1) \<Rightarrow>
         delete_expired_servers e svs (s\<lparr>servers := remove1 sv (servers s)\<rparr>) w1)"

fun delete_expired_containers ::
  "env \<Rightarrow> container list \<Rightarrow> db \<Rightarrow> world \<Rightarrow> exn option \<times> db \<times> world" where
  "delete_expired_containers e [] s w = (None, s, w)"
| "delete_expired_containers e (c # cs) s w =
     (case invoke e (DeleteContainer (container_name c) (c_node_name c)) w of
        (Some x, w1) \<Rightarrow> (Some x, s\<lparr>containers := remove1 c (containers s)\<rparr>, w1)
      | (None, w1) \<Rightarrow>
         delete_expired_containers e cs (s\<lparr>containers := remove1 c (containers s)\<rparr>) w1)"

definition delete_expired_data :: "env \<Rightarrow> date \<Rightarrow> world \<Rightarrow> exn option \<times> world" where
  "delete_expired_data e today w =
     (let s = inventory w;
          expired_servers = filter (\<lambda>r. date_less (end_date r) today) (servers s);
          expired_containers = filter (\<lambda>r. date_less (c_end_date r) today) (containers s) in
      case delete_expired_servers e expired_servers s w of
        (Some x, s1, w1) \<Rightarrow> (Some x, w1)
      | (None, s1, w1) \<Rightarrow>
         (case delete_expired_containers e expired_containers s1 w1 of
            (Some x, s2, w2) \<Rightarrow> (Some x, w2)
          | (None, s2, w2) \<Rightarrow>
             (if commit_fails e then (Some CommitError, w2)
              else (None, w2\<lparr>inventory := s2\<rparr>))))"

section \<open>Scenarios\<close>

text \<open>
  Concrete deployments and requests on which the handlers are run below.
  \<open>quiet\<close> is an environment in which no provider call and no commit fails;
  its \<^verbatim>\<open>int\<close> reads plain decimal digits and its digest is a stand-in that
  differs from its argument.
\<close>

fun decimal_digits :: "string \<Rightarrow> int option" where
  "decimal_digits [] = None"
| "decimal_digits cs =
     (if list_all (\<lambda>c. c \<in> set ''0123456789'') cs
      then Some (foldl (\<lambda>a c. 10 * a + (of_char c - 48)) 0 cs) else None)"

definition quiet :: env where
  "quiet = \<lparr>external_network = ''ext'', default_internal_network = ''int'',
      default_flavors = [''m1''], nodes = [''n1'', ''n2''],
      cloud_fails = (\<lambda>c. False), commit_fails = False,
      allocated_ip = (\<lambda>n. ''10.0.0.1''),
      created_container =
        (\<lambda>n. \<lparr>addresses = [ [ [''addr'' \<mapsto> ''10.0.0.2''] ] ], ports = ''80''\<rparr>),
      lingering_flavor = (\<lambda>n. None),
      validate_ssh_key = (\<lambda>h u k p. True),
      sha256_hexdigest = (\<lambda>p. ''#'' @ p),
      py_int = decimal_digits\<rparr>"

definition empty_db :: db where
  "empty_db = \<lparr>servers = [], containers = [], flavors = [], node_flavors = [],
      networks = [], node_networks = []\<rparr>"

definition fresh :: world where
  "fresh = \<lparr>inventory = empty_db, instances = [], calls = [], logged = []\<rparr>"

definition rent_s1 :: ServerCreateRequestDTO where
  "rent_s1 = \<lparr>q_user_name = ''u'', q_server_name = ''s1'', q_start_date = Date 2023 12 1,
      q_end_date = Date 2024 2 1, q_network_name = Some ''net1'', q_node_name = ''n1'',
      q_flavor_name = ''f1'', q_image_name = ''img'', q_vcpus = 1, q_ram = 1, q_disk = 1,
      q_subnet_cidr = ''10.0.0.0/24''\<rparr>"

definition rent_c1 :: ContainerCreateRequestDTO where
  "rent_c1 = \<lparr>k_user_name = ''u'', k_container_name = ''c1'', k_start_date = Date 2024 1 1,
      k_end_date = Date 2024 2 1, k_image_name = ''img'', k_password = ''pw'',
      k_network_name = None, k_node_name = ''n1'', k_subnet_cidr = ''10.0.0.0/24''\<rparr>"

definition m1_default :: flavor where
  "m1_default = \<lparr>f_name = ''m1'', vcpu = 1, f_ram = 1, f_disk = 1, f_is_default = True\<rparr>"

definition ext_default :: network where
  "ext_default = \<lparr>n_name = ''ext'', cidr = ''192.168.0.0/24'', n_is_default = True\<rparr>"

text \<open>The default flavor and the external network, each linked on both nodes.\<close>

definition m1_on_two_nodes :: world where
  "m1_on_two_nodes = fresh\<lparr>inventory := empty_db\<lparr>flavors := [m1_default],
      node_flavors := [\<lparr>nf_node_name = ''n1'', nf_flavor_name = ''m1''\<rparr>,
                       \<lparr>nf_node_name = ''n2'', nf_flavor_name = ''m1''\<rparr>]\<rparr>\<rparr>"

definition ext_on_two_nodes :: world where
  "ext_on_two_nodes = fresh\<lparr>inventory := empty_db\<lparr>networks := [ext_default],
      node_networks := [\<lparr>nn_node_name = ''n1'', nn_network_name = ''ext''\<rparr>,
                        \<lparr>nn_node_name = ''n2'', nn_network_name = ''ext''\<rparr>]\<rparr>\<rparr>"

text \<open>The default flavor known to the inventory, with no link row.\<close>

definition m1_unlinked :: world where
  "m1_unlinked = fresh\<lparr>inventory := empty_db\<lparr>flavors := [m1_default]\<rparr>\<rparr>"

text \<open>Servers on the custom network \<open>net1\<close> of node \<open>n1\<close>, with flavor \<open>f1\<close>.\<close>

definition server_row :: "string \<Rightarrow> date \<Rightarrow> server" where
  "server_row nm ed = \<lparr>user_name = ''u'', server_name = nm, start_date = Date 2023 12 1,
      end_date = ed, floating_ip = ''10.0.0.1'', network_name = ''net1'', node_name = ''n1'',
      flavor_name = ''f1'', image_name = ''img''\<rparr>"

definition net1_db :: db where
  "net1_db = empty_db\<lparr>
      flavors := [\<lparr>f_name = ''f1'', vcpu = 1, f_ram = 1, f_disk = 1, f_is_default = False\<rparr>],
      networks := [\<lparr>n_name = ''net1'', cidr = ''10.0.0.0/24'', n_is_default = False\<rparr>],
      node_networks := [\<lparr>nn_node_name = ''n1'', nn_network_name = ''net1''\<rparr>]\<rparr>"

definition one_expired :: world where
  "one_expired = fresh\<lparr>inventory := net1_db\<lparr>servers := [server_row ''s1'' (Date 2024 1 1)]\<rparr>,
      instances := [''s1'']\<rparr>"

definition two_expired :: world where
  "two_expired = fresh\<lparr>inventory := net1_db\<lparr>servers :=
        [server_row ''a'' (Date 2024 1 1), server_row ''b'' (Date 2023 12 31)]\<rparr>,
      instances := [''a'', ''b'']\<rparr>"

definition old_and_young :: world where
  "old_and_young = fresh\<lparr>inventory := net1_db\<lparr>servers :=
        [server_row ''old'' (Date 2024 1 1), server_row ''young'' (Date 2024 6 1)]\<rparr>,
      instances := [''old'', ''young'']\<rparr>"

text \<open>A rental whose instance the provider no longer holds.\<close>

definition orphan :: world where
  "orphan = fresh\<lparr>inventory := net1_db\<lparr>servers := [server_row ''s1'' (Date 2024 6 1)]\<rparr>\<rparr>"

text \<open>The worlds after \<open>rent_s1\<close> and after \<open>rent_c1\<close> went through in \<open>fresh\<close>.\<close>

definition s1_rented :: world where
  "s1_rented = fresh\<lparr>inventory := net1_db\<lparr>servers := [server_row ''s1'' (Date 2024 2 1)]\<rparr>,
      instances := [''s1''],
      calls := [CreateFlavor ''f1'' ''n1'', NetworkIsolation ''n1'' ''net1'' ''10.0.0.0/24'',
                CreateServer ''s1'' ''n1'', AllocateFloatingIp ''s1'' ''n1'']\<rparr>"

definition c1_row :: container where
  "c1_row = \<lparr>c_user_name = ''u'', container_name = ''c1'', c_start_date = Date 2024 1 1,
      c_end_date = Date 2024 2 1, c_image_name = ''img'', password = ''#pw'',
      ip = ''10.0.0.2'', port = ''80'', c_network_name = ''ext'', c_node_name = ''n1''\<rparr>"

definition c1_rented :: world where
  "c1_rented = fresh\<lparr>inventory := empty_db\<lparr>containers := [c1_row],
        networks := [\<lparr>n_name = ''ext'', cidr = ''10.0.0.0/24'', n_is_default = False\<rparr>],
        node_networks := [\<lparr>nn_node_name = ''n1'', nn_network_name = ''ext''\<rparr>]\<rparr>,
      calls := [NetworkIsolation ''n1'' ''ext'' ''10.0.0.0/24'', CreateContainer ''c1'' ''n1'']\<rparr>"

text \<open>Containers on \<open>net1\<close>; a world with an expired and a current rental of each
  kind; and a world with three expired servers and an expired container.\<close>

definition container_row :: "string \<Rightarrow> date \<Rightarrow> container" where
  "container_row nm ed = \<lparr>c_user_name = ''u'', container_name = nm,
      c_start_date = Date 2023 12 1, c_end_date = ed, c_image_name = ''img'',
      password = ''#pw'', ip = ''10.0.0.2'', port = ''80'', c_network_name = ''net1'',
      c_node_name = ''n1''\<rparr>"

definition mixed :: world where
  "mixed = fresh\<lparr>inventory := net1_db\<lparr>
        servers := [server_row ''old'' (Date 2024 1 1), server_row ''young'' (Date 2024 6 1)],
        containers := [container_row ''c_old'' (Date 2024 1 1),
                       container_row ''c_young'' (Date 2024 6 1)]\<rparr>,
      instances := [''old'', ''young'']\<rparr>"

definition three_expired :: world where
  "three_expired = fresh\<lparr>inventory := net1_db\<lparr>
        servers := [server_row ''a'' (Date 2024 1 1), server_row ''b'' (Date 2023 12 31),
                    server_row ''c'' (Date 2023 12 30)],
        containers := [container_row ''c_old'' (Date 2024 1 1)]\<rparr>,
      instances := [''a'', ''b'', ''c'']\<rparr>"

text \<open>The provider calls of a sweep that runs to its end: one deletion per
  expired server, then one per expired container, in table order.\<close>

definition sweep_calls :: "date \<Rightarrow> db \<Rightarrow> cloud_call list" where
  "sweep_calls today s =
     map (\<lambda>r. DeleteServer (server_name r) (node_name r))
       (filter (\<lambda>r. date_less (end_date r) today) (servers s)) @
     map (\<lambda>r. DeleteContainer (container_name r) (c_node_name r))
       (filter (\<lambda>r. date_less (c_end_date r) today) (containers s))"

text \<open>The rows a sweep on a given day selects, and the provider call that tears
  one down.\<close>

definition server_call :: "server \<Rightarrow> cloud_call" where
  "server_call r = DeleteServer (server_name r) (node_name r)"

definition container_call :: "container \<Rightarrow> cloud_call" where
  "container_call c = DeleteContainer (container_name c) (c_node_name c)"

definition expired_servers :: "date \<Rightarrow> db \<Rightarrow> server list" where
  "expired_servers today s = filter (\<lambda>r. date_less (end_date r) today) (servers s)"

definition expired_containers :: "date \<Rightarrow> db \<Rightarrow> container list" where
  "expired_containers today s = filter (\<lambda>r. date_less (c_end_date r) today) (containers s)"

section \<open>Properties\<close>

lemmas server_rent_defs = server_rent_def server_rent_flavor_def server_rent_flavor_except_def
  network_block_def network_undo_def server_rent_network_except_def server_rent_create_def
  links_by_flavor_name_def links_by_network_name_def links_by_network_and_node_def
  link_is_default_def invoke_def create_server_def delete_server_def log_error_def Let_def

lemmas rental_defs = rental_def rental_create_def rental_except_def first_address_def
  network_block_def network_undo_def links_by_network_name_def link_is_default_def
  invoke_def log_error_def Let_def

lemmas sweep_defs = delete_expired_data_def delete_server_def invoke_def Let_def

lemmas scenario_defs = quiet_def empty_db_def fresh_def rent_s1_def rent_c1_def m1_default_def
  ext_default_def m1_on_two_nodes_def ext_on_two_nodes_def m1_unlinked_def server_row_def
  net1_db_def one_expired_def two_expired_def old_and_young_def orphan_def s1_rented_def
  c1_row_def c1_rented_def container_row_def mixed_def three_expired_def

subsection \<open>Lemmas on queries and on the stages of the handlers\<close>

lemma invoke_frame: "invoke e c w = (r, w') \<Longrightarrow> w' = w\<lparr>calls := calls w @ [c]\<rparr>"
  by (auto simp: invoke_def)

lemma delete_server_frame:
  "delete_server e nm node w = (r, w') \<Longrightarrow>
     inventory w' = inventory w \<and> calls w' = calls w @ [DeleteServer nm node] \<and> logged w' = logged w"
  by (auto simp: delete_server_def Let_def split: if_splits)

lemma one_or_none_None: "one_or_none xs = Inr None \<longleftrightarrow> xs = []"
  by (cases xs rule: one_or_none.cases) auto

lemma one_or_none_Some: "one_or_none xs = Inr (Some x) \<longleftrightarrow> xs = [x]"
  by (cases xs rule: one_or_none.cases) auto

lemma one_Inr: "one xs = Inr x \<longleftrightarrow> xs = [x]"
  by (cases xs rule: one.cases) auto

lemma one_empty: "one [] = Inl NoResultFound"
  by simp

lemma server_rent_flavor_frame:
  "server_rent_flavor e q s w = (r, s', w') \<Longrightarrow>
     servers s' = servers s \<and> containers s' = containers s \<and> inventory w' = inventory w"
  by (auto simp: server_rent_flavor_def invoke_def Let_def
           split: sum.splits option.splits prod.splits)

lemma network_block_frame:
  "network_block e node n c s w = (r, s', w') \<Longrightarrow>
     servers s' = servers s \<and> containers s' = containers s \<and> inventory w' = inventory w"
  by (auto simp: network_block_def invoke_def Let_def
           split: sum.splits option.splits prod.splits if_splits)

lemma server_rent_flavor_except_no_success:
  "server_rent_flavor_except e q x w \<noteq> (ApiResponse c m, w')"
  by (auto simp: server_rent_flavor_except_def split: prod.splits option.splits)

lemma server_rent_network_except_no_success:
  "server_rent_network_except e q n x s w \<noteq> (ApiResponse c m, w')"
  by (auto simp: server_rent_network_except_def split: prod.splits option.splits)

lemma server_rent_create_success:
  "server_rent_create e q n s w = (ApiResponse c m, w') \<Longrightarrow>
     \<exists>sv. server_name sv = q_server_name q \<and> servers (inventory w') = servers s @ [sv]"
  by (auto simp: server_rent_create_def split: prod.splits option.splits if_splits)

lemma server_rent_success:
  assumes "server_rent e q w = (ApiResponse c m, w')"
  shows "filter (\<lambda>r. server_name r = q_server_name q) (servers (inventory w)) = []
       \<and> (\<exists>sv. server_name sv = q_server_name q
              \<and> servers (inventory w') = servers (inventory w) @ [sv])"
proof -
  let ?n = "case q_network_name q of None \<Rightarrow> default_internal_network e | Some m \<Rightarrow> m"
  from assms have none:
    "one_or_none (filter (\<lambda>r. server_name r = q_server_name q) (servers (inventory w))) = Inr None"
    by (auto simp: server_rent_def Let_def split: sum.splits option.splits)
  obtain r1 s1 w1 where f: "server_rent_flavor e q (inventory w) w = (r1, s1, w1)"
    by (cases "server_rent_flavor e q (inventory w) w") auto
  obtain r2 s2 w2 where b: "network_block e (q_node_name q) ?n (q_subnet_cidr q) s1 w1 = (r2, s2, w2)"
    by (cases "network_block e (q_node_name q) ?n (q_subnet_cidr q) s1 w1") auto
  from assms none f have r1: "r1 = None"
    by (cases r1) (auto simp: server_rent_def Let_def server_rent_flavor_except_no_success)
  from assms none f b r1 have r2: "r2 = None"
    by (cases r2) (auto simp: server_rent_def Let_def server_rent_network_except_no_success)
  from assms none f b r1 r2 have "server_rent_create e q ?n s2 w2 = (ApiResponse c m, w')"
    by (simp add: server_rent_def Let_def)
  from server_rent_create_success [OF this] server_rent_flavor_frame [OF f] network_block_frame [OF b]
  have "\<exists>sv. server_name sv = q_server_name q
           \<and> servers (inventory w') = servers (inventory w) @ [sv]"
    by simp
  with none show ?thesis by (simp add: one_or_none_None)
qed

lemma rental_except_no_success: "rental_except e k n x s w \<noteq> (ApiResponse c m, w')"
  by (auto simp: rental_except_def split: prod.splits option.splits)

lemma rental_create_success:
  "rental_create e k n s w = (ApiResponse c m, w') \<Longrightarrow>
     \<exists>row. container_name row = k_container_name k
         \<and> password row = sha256_hexdigest e (k_password k)
         \<and> containers (inventory w') = containers s @ [row]"
  by (auto simp: rental_create_def rental_except_no_success
           split: prod.splits option.splits sum.splits if_splits)

lemma rental_success:
  assumes "rental e k w = (ApiResponse c m, w')"
  shows "filter (\<lambda>r. container_name r = k_container_name k) (containers (inventory w)) = []
       \<and> (\<exists>row. container_name row = k_container_name k
              \<and> password row = sha256_hexdigest e (k_password k)
              \<and> containers (inventory w') = containers (inventory w) @ [row])"
proof -
  let ?n = "case k_network_name k of None \<Rightarrow> external_network e | Some m \<Rightarrow> m"
  from assms have none:
    "one_or_none (filter (\<lambda>r. container_name r = k_container_name k) (containers (inventory w))) = Inr None"
    by (auto simp: rental_def Let_def split: sum.splits option.splits)
  obtain r1 s1 w1 where b: "network_block e (k_node_name k) ?n (k_subnet_cidr k) (inventory w) w = (r1, s1, w1)"
    by (cases "network_block e (k_node_name k) ?n (k_subnet_cidr k) (inventory w) w") auto
  from assms none b have r1: "r1 = None"
    by (cases r1) (auto simp: rental_def Let_def)
  from assms none b r1 have "rental_create e k ?n s1 w1 = (ApiResponse c m, w')"
    by (simp add: rental_def Let_def)
  from rental_create_success [OF this] network_block_frame [OF b] none
  show ?thesis by (simp add: one_or_none_None)
qed

lemma one_filter_split:
  assumes "one (filter P xs) = Inr x"
  shows "\<exists>us vs. xs = us @ x # vs \<and> P x \<and> (\<forall>u\<in>set us. \<not> P u) \<and> (\<forall>v\<in>set vs. \<not> P v)"
proof -
  from assms have "filter P xs = [x]" by (simp add: one_Inr)
  then obtain us vs where "xs = us @ x # vs" "\<forall>u\<in>set us. \<not> P u" "P x" "[] = filter P vs"
    unfolding filter_eq_Cons_iff by blast
  moreover from this have "\<forall>v\<in>set vs. \<not> P v" by (simp add: filter_empty_conv[symmetric] eq_commute)
  ultimately show ?thesis by blast
qed

lemma map_update_split:
  assumes "\<forall>u\<in>set us. \<not> P u" "P x" "\<forall>v\<in>set vs. \<not> P v"
  shows "map (\<lambda>r. if P r then f r else r) (us @ x # vs) = us @ f x # vs"
  using assms by (simp add: map_idI)

lemma server_renew_success:
  assumes "server_renew e nm host ed pw key w = (ApiResponse c m, w')"
  shows "\<exists>us sv vs d. servers (inventory w) = us @ sv # vs \<and> server_name sv = nm
           \<and> (\<forall>r\<in>set (us @ vs). server_name r \<noteq> nm)
           \<and> parse_date e ed = Inr d
           \<and> w' = w\<lparr>inventory := (inventory w)\<lparr>servers := us @ sv\<lparr>end_date := d\<rparr> # vs\<rparr>\<rparr>"
proof -
  from assms obtain sv d where
    o: "one (filter (\<lambda>r. server_name r = nm) (servers (inventory w))) = Inr sv"
    and p: "parse_date e ed = Inr d"
    and w': "w' = w\<lparr>inventory := (inventory w)\<lparr>servers :=
               map (\<lambda>r. if server_name r = nm then r\<lparr>end_date := d\<rparr> else r)
                 (servers (inventory w))\<rparr>\<rparr>"
    by (auto simp: server_renew_def split: if_splits sum.splits)
  from one_filter_split [OF o] obtain us vs where
    s: "servers (inventory w) = us @ sv # vs" "server_name sv = nm"
       "\<forall>u\<in>set us. server_name u \<noteq> nm" "\<forall>v\<in>set vs. server_name v \<noteq> nm"
    by blast
  have "map (\<lambda>r. if server_name r = nm then r\<lparr>end_date := d\<rparr> else r) (us @ sv # vs)
          = us @ sv\<lparr>end_date := d\<rparr> # vs"
    using s(2-4) by (intro map_update_split) auto
  with s p w' have "servers (inventory w) = us @ sv # vs \<and> server_name sv = nm
           \<and> (\<forall>r\<in>set (us @ vs). server_name r \<noteq> nm)
           \<and> parse_date e ed = Inr d
           \<and> w' = w\<lparr>inventory := (inventory w)\<lparr>servers := us @ sv\<lparr>end_date := d\<rparr> # vs\<rparr>\<rparr>"
    by auto
  then show ?thesis by blast
qed

lemma server_renew_missing:
  assumes "filter (\<lambda>r. server_name r = nm) (servers (inventory w)) = []"
  shows "server_renew e nm host ed pw key w =
     (if validate_ssh_key e host nm key pw
      then (ErrorResponse 500 BackendInternalError, w\<lparr>logged := logged w @ [NoResultFound]\<rparr>)
      else (ErrorResponse 400 InvalidInformation, w))"
  using assms by (simp add: server_renew_def log_error_def)

lemma db_server_renew_success:
  assumes "db_server_renew e nm host ed pw key w = (ApiResponse 200 m, w')"
  shows "\<exists>us sv vs d. servers (inventory w) = us @ sv # vs \<and> server_name sv = nm
           \<and> (\<forall>r\<in>set (us @ vs). server_name r \<noteq> nm)
           \<and> parse_date e ed = Inr d
           \<and> w' = w\<lparr>inventory := (inventory w)\<lparr>servers := us @ sv\<lparr>end_date := d\<rparr> # vs\<rparr>\<rparr>"
proof -
  from assms obtain sv d where
    o: "one (filter (\<lambda>r. server_name r = nm) (servers (inventory w))) = Inr sv"
    and p: "parse_date e ed = Inr d"
    and w': "w' = w\<lparr>inventory := (inventory w)\<lparr>servers :=
               map (\<lambda>r. if server_name r = nm then r\<lparr>end_date := d\<rparr> else r)
                 (servers (inventory w))\<rparr>\<rparr>"
    by (auto simp: db_server_renew_def split: if_splits sum.splits)
  from one_filter_split [OF o] obtain us vs where
    s: "servers (inventory w) = us @ sv # vs" "server_name sv = nm"
       "\<forall>u\<in>set us. server_name u \<noteq> nm" "\<forall>v\<in>set vs. server_name v \<noteq> nm"
    by blast
  have "map (\<lambda>r. if server_name r = nm then r\<lparr>end_date := d\<rparr> else r) (us @ sv # vs)
          = us @ sv\<lparr>end_date := d\<rparr> # vs"
    using s(2-4) by (intro map_update_split) auto
  with s p w' have "servers (inventory w) = us @ sv # vs \<and> server_name sv = nm
           \<and> (\<forall>r\<in>set (us @ vs). server_name r \<noteq> nm)
           \<and> parse_date e ed = Inr d
           \<and> w' = w\<lparr>inventory := (inventory w)\<lparr>servers := us @ sv\<lparr>end_date := d\<rparr> # vs\<rparr>\<rparr>"
    by auto
  then show ?thesis by blast
qed

lemma db_server_renew_missing:
  assumes "filter (\<lambda>r. server_name r = nm) (servers (inventory w)) = []"
  shows "db_server_renew e nm host ed pw key w =
     (if validate_ssh_key e host nm key pw
      then (ApiResponse 500 ExceptionOccurred, w)
      else (ApiResponse 400 InvalidInformation, w))"
  using assms by (simp add: db_server_renew_def)

text \<open>A provisioning that does not go through leaves the inventory as it was.\<close>

lemma network_undo_frame:
  "network_undo e node n ls s w = (r, w') \<Longrightarrow> inventory w' = inventory w"
  by (auto simp: network_undo_def invoke_def split: sum.splits option.splits if_splits)

lemma server_rent_create_inventory:
  "server_rent_create e q n s w = (r, w') \<Longrightarrow> (\<forall>c m. r \<noteq> ApiResponse c m) \<Longrightarrow>
     inventory w' = inventory w"
  by (auto simp: server_rent_create_def create_server_def invoke_def delete_server_def
        log_error_def Let_def split: prod.splits option.splits if_splits)

lemma server_rent_failure_inventory:
  assumes "server_rent e q w = (r, w')" "\<forall>c m. r \<noteq> ApiResponse c m"
  shows "inventory w' = inventory w"
proof -
  let ?n = "case q_network_name q of None \<Rightarrow> default_internal_network e | Some m \<Rightarrow> m"
  obtain r1 s1 w1 where f: "server_rent_flavor e q (inventory w) w = (r1, s1, w1)"
    by (cases "server_rent_flavor e q (inventory w) w") auto
  obtain r2 s2 w2 where b: "network_block e (q_node_name q) ?n (q_subnet_cidr q) s1 w1 = (r2, s2, w2)"
    by (cases "network_block e (q_node_name q) ?n (q_subnet_cidr q) s1 w1") auto
  note ff = server_rent_flavor_frame [OF f] and bf = network_block_frame [OF b]
  show ?thesis
  proof (cases "one_or_none (filter (\<lambda>r. server_name r = q_server_name q) (servers (inventory w)))")
    case (Inl x)
    with assms show ?thesis by (simp add: server_rent_def)
  next
    case (Inr o1)
    show ?thesis
    proof (cases o1)
      case (Some y)
      with Inr assms show ?thesis by (simp add: server_rent_def)
    next
      case None
      show ?thesis
      proof (cases r1)
        case (Some x)
        with Inr None f assms(1) have "server_rent_flavor_except e q x w1 = (r, w')"
          by (simp add: server_rent_def)
        then have "inventory w' = inventory w1"
          by (auto simp: server_rent_flavor_except_def invoke_def log_error_def
                split: prod.splits option.splits if_splits)
        with ff show ?thesis by simp
      next
        case r1: None
        show ?thesis
        proof (cases r2)
          case (Some x)
          with Inr None f b r1 assms(1) have "server_rent_network_except e q ?n x s2 w2 = (r, w')"
            by (simp add: server_rent_def Let_def)
          then obtain r3 where "network_undo e (q_node_name q) ?n
                (links_by_network_and_node ?n (q_node_name q) s2) s2 (log_error x w2) = (r3, w')"
            by (auto simp: server_rent_network_except_def split: prod.splits option.splits)
          from network_undo_frame [OF this] ff bf show ?thesis by (simp add: log_error_def)
        next
          case r2: None
          with Inr None f b r1 assms(1) have "server_rent_create e q ?n s2 w2 = (r, w')"
            by (simp add: server_rent_def Let_def)
          from server_rent_create_inventory [OF this assms(2)] ff bf show ?thesis by simp
        qed
      qed
    qed
  qed
qed

lemma rental_failure_inventory:
  assumes "rental e k w = (r, w')" "\<forall>c m. r \<noteq> ApiResponse c m"
  shows "inventory w' = inventory w"
proof -
  let ?n = "case k_network_name k of None \<Rightarrow> external_network e | Some m \<Rightarrow> m"
  obtain r1 s1 w1 where b: "network_block e (k_node_name k) ?n (k_subnet_cidr k) (inventory w) w = (r1, s1, w1)"
    by (cases "network_block e (k_node_name k) ?n (k_subnet_cidr k) (inventory w) w") auto
  note bf = network_block_frame [OF b]
  have ex: "inventory v' = inventory v" if "rental_except e k ?n x s v = (r', v')" for x s v r' v'
  proof (cases "x = CommitError")
    case True
    with that show ?thesis by (auto simp: rental_except_def log_error_def)
  next
    case False
    with that obtain r3 v3 where u: "network_undo e (k_node_name k) ?n (links_by_network_name ?n s) s
                                    (log_error x v) = (r3, v3)"
      and "inventory v' = inventory v3"
      by (auto simp: rental_except_def invoke_def split: prod.splits option.splits if_splits)
    with network_undo_frame [OF u] show ?thesis by (simp add: log_error_def)
  qed
  show ?thesis
  proof (cases "one_or_none (filter (\<lambda>r. container_name r = k_container_name k) (containers (inventory w)))")
    case (Inl x)
    with assms show ?thesis by (simp add: rental_def)
  next
    case (Inr o1)
    show ?thesis
    proof (cases o1)
      case (Some y)
      with Inr assms show ?thesis by (simp add: rental_def)
    next
      case None
      show ?thesis
      proof (cases r1)
        case (Some x)
        with Inr None b assms(1) bf show ?thesis by (auto simp: rental_def Let_def)
      next
        case r1: None
        with Inr None b assms(1) have c: "rental_create e k ?n s1 w1 = (r, w')"
          by (simp add: rental_def Let_def)
        obtain r4 w4 where i: "invoke e (CreateContainer (k_container_name k) (k_node_name k)) w1 = (r4, w4)"
          by (cases "invoke e (CreateContainer (k_container_name k) (k_node_name k)) w1") auto
        from invoke_frame [OF i] have i4: "inventory w4 = inventory w1" by simp
        from c i assms(2) have "\<exists>x s. rental_except e k ?n x s w4 = (r, w')"
          by (auto simp: rental_create_def split: option.splits sum.splits if_splits)
        with ex i4 bf show ?thesis by auto
      qed
    qed
  qed
qed

text \<open>With exactly one link row of the name, and the resource row present, the blocks do nothing.\<close>

lemma network_block_linked_once:
  assumes "filter (\<lambda>r. n_name r = n) (networks s) = [nw]" "links_by_network_name n s = [l]"
  shows "network_block e node n c s w = (None, s, w)"
  using assms by (simp add: network_block_def)

lemma server_rent_flavor_linked_once:
  assumes "filter (\<lambda>f. f_name f = q_flavor_name q) (flavors s) = [fl]"
    "links_by_flavor_name (q_flavor_name q) s = [l]"
  shows "server_rent_flavor e q s w = (None, s, w)"
  using assms by (simp add: server_rent_flavor_def)

subsection \<open>Lemmas on the loops of the sweep\<close>

lemma delete_expired_servers_frame:
  "delete_expired_servers e es s w = (r, s', w') \<Longrightarrow>
     inventory w' = inventory w \<and> logged w' = logged w
     \<and> containers s' = containers s \<and> flavors s' = flavors s \<and> node_flavors s' = node_flavors s
     \<and> networks s' = networks s \<and> node_networks s' = node_networks s"
proof (induction es arbitrary: s w)
  case Nil
  then show ?case by simp
next
  case (Cons sv es)
  obtain r1 w1 where d: "delete_server e (server_name sv) (node_name sv) w = (r1, w1)"
    by (cases "delete_server e (server_name sv) (node_name sv) w") auto
  note f = delete_server_frame [OF d]
  show ?case
  proof (cases r1)
    case None
    with Cons.prems d
    have "delete_expired_servers e es (s\<lparr>servers := remove1 sv (servers s)\<rparr>) w1 = (r, s', w')"
      by simp
    from Cons.IH [OF this] f show ?thesis by simp
  next
    case (Some x)
    with Cons.prems d f show ?thesis by auto
  qed
qed

lemma delete_expired_servers_calls:
  "delete_expired_servers e es s w = (r, s', w') \<Longrightarrow>
     (\<exists>k\<le>length es. calls w' =
         calls w @ take k (map (\<lambda>r. DeleteServer (server_name r) (node_name r)) es))
     \<and> (r = None \<longrightarrow> calls w' =
         calls w @ map (\<lambda>r. DeleteServer (server_name r) (node_name r)) es)"
proof (induction es arbitrary: s w)
  case Nil
  then show ?case by simp
next
  case (Cons sv es)
  obtain r1 w1 where d: "delete_server e (server_name sv) (node_name sv) w = (r1, w1)"
    by (cases "delete_server e (server_name sv) (node_name sv) w") auto
  note f = delete_server_frame [OF d]
  show ?case
  proof (cases r1)
    case None
    with Cons.prems d
    have "delete_expired_servers e es (s\<lparr>servers := remove1 sv (servers s)\<rparr>) w1 = (r, s', w')"
      by simp
    from Cons.IH [OF this] obtain k where k: "k \<le> length es"
      "calls w' = calls w1 @ take k (map (\<lambda>r. DeleteServer (server_name r) (node_name r)) es)"
      and n: "r = None \<longrightarrow> calls w' = calls w1 @ map (\<lambda>r. DeleteServer (server_name r) (node_name r)) es"
      by blast
    from k f have "Suc k \<le> length (sv # es) \<and> calls w' =
         calls w @ take (Suc k) (map (\<lambda>r. DeleteServer (server_name r) (node_name r)) (sv # es))"
      by simp
    moreover from n f have "r = None \<longrightarrow> calls w' =
         calls w @ map (\<lambda>r. DeleteServer (server_name r) (node_name r)) (sv # es)" by simp
    ultimately show ?thesis by blast
  next
    case (Some x)
    with Cons.prems d have "r = Some x" "w' = w1" by auto
    with f have "Suc 0 \<le> length (sv # es) \<and> calls w' =
         calls w @ take (Suc 0) (map (\<lambda>r. DeleteServer (server_name r) (node_name r)) (sv # es))"
      by simp
    with \<open>r = Some x\<close> show ?thesis by blast
  qed
qed

lemma delete_expired_servers_rows:
  "delete_expired_servers e es s w = (None, s', w') \<Longrightarrow> filter P (servers s) = es \<Longrightarrow>
     servers s' = filter (\<lambda>r. \<not> P r) (servers s)"
proof (induction es arbitrary: s w)
  case Nil
  then show ?case by (simp add: filter_empty_conv filter_id_conv)
next
  case (Cons sv es)
  obtain r1 w1 where d: "delete_server e (server_name sv) (node_name sv) w = (r1, w1)"
    by (cases "delete_server e (server_name sv) (node_name sv) w") auto
  with Cons.prems(1) have r1: "r1 = None" by (cases r1) auto
  let ?s1 = "s\<lparr>servers := remove1 sv (servers s)\<rparr>"
  from Cons.prems(1) d r1 have run: "delete_expired_servers e es ?s1 w1 = (None, s', w')"
    by simp
  have "sv \<in> set (filter P (servers s))" using Cons.prems(2) by simp
  then have P: "P sv" by simp
  have "filter P (servers ?s1) = remove1 sv (filter P (servers s))"
    by (simp add: filter_remove1)
  also have "\<dots> = es" using Cons.prems(2) by simp
  finally have "servers s' = filter (\<lambda>r. \<not> P r) (servers ?s1)"
    using Cons.IH [OF run] by simp
  also have "\<dots> = remove1 sv (filter (\<lambda>r. \<not> P r) (servers s))"
    by (simp add: filter_remove1)
  also have "\<dots> = filter (\<lambda>r. \<not> P r) (servers s)"
    using P by simp
  finally show ?case .
qed


lemma delete_expired_containers_frame:
  "delete_expired_containers e es s w = (r, s', w') \<Longrightarrow>
     inventory w' = inventory w \<and> logged w' = logged w
     \<and> servers s' = servers s \<and> flavors s' = flavors s \<and> node_flavors s' = node_flavors s
     \<and> networks s' = networks s \<and> node_networks s' = node_networks s"
proof (induction es arbitrary: s w)
  case Nil
  then show ?case by simp
next
  case (Cons c es)
  obtain r1 w1 where d: "invoke e (DeleteContainer (container_name c) (c_node_name c)) w = (r1, w1)"
    by (cases "invoke e (DeleteContainer (container_name c) (c_node_name c)) w") auto
  note f = invoke_frame [OF d]
  show ?case
  proof (cases r1)
    case None
    with Cons.prems d
    have "delete_expired_containers e es (s\<lparr>containers := remove1 c (containers s)\<rparr>) w1 = (r, s', w')"
      by simp
    from Cons.IH [OF this] f show ?thesis by simp
  next
    case (Some x)
    with Cons.prems d f show ?thesis by auto
  qed
qed

lemma delete_expired_containers_calls:
  "delete_expired_containers e es s w = (r, s', w') \<Longrightarrow>
     (\<exists>k\<le>length es. calls w' =
         calls w @ take k (map (\<lambda>r. DeleteContainer (container_name r) (c_node_name r)) es))
     \<and> (r = None \<longrightarrow> calls w' =
         calls w @ map (\<lambda>r. DeleteContainer (container_name r) (c_node_name r)) es)"
proof (induction es arbitrary: s w)
  case Nil
  then show ?case by simp
next
  case (Cons c es)
  obtain r1 w1 where d: "invoke e (DeleteContainer (container_name c) (c_node_name c)) w = (r1, w1)"
    by (cases "invoke e (DeleteContainer (container_name c) (c_node_name c)) w") auto
  note f = invoke_frame [OF d]
  show ?case
  proof (cases r1)
    case None
    with Cons.prems d
    have "delete_expired_containers e es (s\<lparr>containers := remove1 c (containers s)\<rparr>) w1 = (r, s', w')"
      by simp
    from Cons.IH [OF this] obtain k where k: "k \<le> length es"
      "calls w' = calls w1 @ take k (map (\<lambda>r. DeleteContainer (container_name r) (c_node_name r)) es)"
      and n: "r = None \<longrightarrow> calls w' = calls w1 @ map (\<lambda>r. DeleteContainer (container_name r) (c_node_name r)) es"
      by blast
    from k f have "Suc k \<le> length (c # es) \<and> calls w' =
         calls w @ take (Suc k) (map (\<lambda>r. DeleteContainer (container_name r) (c_node_name r)) (c # es))"
      by simp
    moreover from n f have "r = None \<longrightarrow> calls w' =
         calls w @ map (\<lambda>r. DeleteContainer (container_name r) (c_node_name r)) (c # es)" by simp
    ultimately show ?thesis by blast
  next
    case (Some x)
    with Cons.prems d have "r = Some x" "w' = w1" by auto
    with f have "Suc 0 \<le> length (c # es) \<and> calls w' =
         calls w @ take (Suc 0) (map (\<lambda>r. DeleteContainer (container_name r) (c_node_name r)) (c # es))"
      by simp
    with \<open>r = Some x\<close> show ?thesis by blast
  qed
qed

lemma delete_expired_containers_rows:
  "delete_expired_containers e es s w = (None, s', w') \<Longrightarrow> filter P (containers s) = es \<Longrightarrow>
     containers s' = filter (\<lambda>r. \<not> P r) (containers s)"
proof (induction es arbitrary: s w)
  case Nil
  then show ?case by (simp add: filter_empty_conv filter_id_conv)
next
  case (Cons c es)
  obtain r1 w1 where d: "invoke e (DeleteContainer (container_name c) (c_node_name c)) w = (r1, w1)"
    by (cases "invoke e (DeleteContainer (container_name c) (c_node_name c)) w") auto
  with Cons.prems(1) have r1: "r1 = None" by (cases r1) auto
  let ?s1 = "s\<lparr>containers := remove1 c (containers s)\<rparr>"
  from Cons.prems(1) d r1 have run: "delete_expired_containers e es ?s1 w1 = (None, s', w')"
    by simp
  have "c \<in> set (filter P (containers s))" using Cons.prems(2) by simp
  then have P: "P c" by simp
  have "filter P (containers ?s1) = remove1 c (filter P (containers s))"
    by (simp add: filter_remove1)
  also have "\<dots> = es" using Cons.prems(2) by simp
  finally have "containers s' = filter (\<lambda>r. \<not> P r) (containers ?s1)"
    using Cons.IH [OF run] by simp
  also have "\<dots> = remove1 c (filter (\<lambda>r. \<not> P r) (containers s))"
    by (simp add: filter_remove1)
  also have "\<dots> = filter (\<lambda>r. \<not> P r) (containers s)"
    using P by simp
  finally show ?case .
qed

text \<open>The sweep, case by case.\<close>

lemma sweep_cases:
  assumes "delete_expired_data e today w = (r, w')"
  obtains
    (servers_fail) x s1 where
      "delete_expired_servers e (filter (\<lambda>r. date_less (end_date r) today) (servers (inventory w)))
         (inventory w) w = (Some x, s1, w')" "r = Some x"
  | (containers_fail) x s1 w1 s2 where
      "delete_expired_servers e (filter (\<lambda>r. date_less (end_date r) today) (servers (inventory w)))
         (inventory w) w = (None, s1, w1)"
      "delete_expired_containers e
         (filter (\<lambda>r. date_less (c_end_date r) today) (containers (inventory w))) s1 w1 = (Some x, s2, w')"
      "r = Some x"
  | (commit_fail) s1 w1 s2 where
      "delete_expired_servers e (filter (\<lambda>r. date_less (end_date r) today) (servers (inventory w)))
         (inventory w) w = (None, s1, w1)"
      "delete_expired_containers e
         (filter (\<lambda>r. date_less (c_end_date r) today) (containers (inventory w))) s1 w1 = (None, s2, w')"
      "r = Some CommitError" "commit_fails e"
  | (completed) s1 w1 s2 w2 where
      "delete_expired_servers e (filter (\<lambda>r. date_less (end_date r) today) (servers (inventory w)))
         (inventory w) w = (None, s1, w1)"
      "delete_expired_containers e
         (filter (\<lambda>r. date_less (c_end_date r) today) (containers (inventory w))) s1 w1 = (None, s2, w2)"
      "r = None" "w' = w2\<lparr>inventory := s2\<rparr>"
  using assms
  by (auto simp: delete_expired_data_def Let_def split: prod.splits option.splits if_splits)

lemma sweep_failure:
  assumes "delete_expired_data e today w = (Some x, w')"
  shows "inventory w' = inventory w \<and>
         (\<exists>k. calls w' = calls w @ take k (sweep_calls today (inventory w)))"
  using assms
proof (cases rule: sweep_cases)
  case (servers_fail x s1)
  from delete_expired_servers_frame [OF servers_fail(1)]
    delete_expired_servers_calls [OF servers_fail(1)]
  obtain k where "inventory w' = inventory w"
    "k \<le> length (filter (\<lambda>r. date_less (end_date r) today) (servers (inventory w)))"
    "calls w' = calls w @
       take k (map (\<lambda>r. DeleteServer (server_name r) (node_name r))
         (filter (\<lambda>r. date_less (end_date r) today) (servers (inventory w))))"
    by auto
  then have "inventory w' = inventory w"
    "calls w' = calls w @ take k (sweep_calls today (inventory w))"
    by (simp_all add: sweep_calls_def)
  then show ?thesis by blast
next
  case (containers_fail x s1 w1 s2)
  from delete_expired_servers_frame [OF containers_fail(1)]
    delete_expired_servers_calls [OF containers_fail(1)]
    delete_expired_containers_frame [OF containers_fail(2)]
    delete_expired_containers_calls [OF containers_fail(2)]
  obtain k where "inventory w' = inventory w"
    "k \<le> length (filter (\<lambda>r. date_less (c_end_date r) today) (containers (inventory w)))"
    "calls w' = calls w @
       map (\<lambda>r. DeleteServer (server_name r) (node_name r))
         (filter (\<lambda>r. date_less (end_date r) today) (servers (inventory w))) @
       take k (map (\<lambda>r. DeleteContainer (container_name r) (c_node_name r))
         (filter (\<lambda>r. date_less (c_end_date r) today) (containers (inventory w))))"
    by auto
  then have "inventory w' = inventory w" "calls w' = calls w @
      take (length (filter (\<lambda>r. date_less (end_date r) today) (servers (inventory w))) + k)
        (sweep_calls today (inventory w))"
    by (simp_all add: sweep_calls_def)
  then show ?thesis by blast
next
  case (commit_fail s1 w1 s2)
  from delete_expired_servers_frame [OF commit_fail(1)]
    delete_expired_servers_calls [OF commit_fail(1)]
    delete_expired_containers_frame [OF commit_fail(2)]
    delete_expired_containers_calls [OF commit_fail(2)]
  have "inventory w' = inventory w" "calls w' = calls w @
      take (length (sweep_calls today (inventory w))) (sweep_calls today (inventory w))"
    by (simp_all add: sweep_calls_def)
  then show ?thesis by blast
next
  case (completed s1 w1 s2 w2)
  with assms show ?thesis by simp
qed

lemma sweep_success:
  assumes "delete_expired_data e today w = (None, w')"
  shows "servers (inventory w') =
           filter (\<lambda>r. \<not> date_less (end_date r) today) (servers (inventory w))
       \<and> containers (inventory w') =
           filter (\<lambda>r. \<not> date_less (c_end_date r) today) (containers (inventory w))
       \<and> calls w' = calls w @ sweep_calls today (inventory w)"
  using assms
proof (cases rule: sweep_cases)
  case (completed s1 w1 s2 w2)
  from delete_expired_servers_rows [OF completed(1) refl]
  have a: "servers s1 = filter (\<lambda>r. \<not> date_less (end_date r) today) (servers (inventory w))" .
  from delete_expired_servers_frame [OF completed(1)]
  have b: "containers s1 = containers (inventory w)" by simp
  have c: "containers s2 = filter (\<lambda>r. \<not> date_less (c_end_date r) today) (containers s1)"
    by (rule delete_expired_containers_rows [OF completed(2)]) (simp add: b)
  from delete_expired_containers_frame [OF completed(2)] have d: "servers s2 = servers s1" by simp
  from delete_expired_servers_calls [OF completed(1)] delete_expired_containers_calls [OF completed(2)]
  have "calls w2 = calls w @ sweep_calls today (inventory w)"
    by (simp add: sweep_calls_def)
  with a b c d completed show ?thesis by simp
qed simp_all

text \<open>No outcome of the sweep touches the flavor, network and link tables.\<close>

lemma sweep_keeps_shared_infrastructure:
  assumes "delete_expired_data e today w = (r, w')"
  shows "flavors (inventory w') = flavors (inventory w)
       \<and> node_flavors (inventory w') = node_flavors (inventory w)
       \<and> networks (inventory w') = networks (inventory w)
       \<and> node_networks (inventory w') = node_networks (inventory w)"
  using assms
proof (cases rule: sweep_cases)
  case (completed s1 w1 s2 w2)
  from delete_expired_servers_frame [OF completed(1)] delete_expired_containers_frame [OF completed(2)]
    completed(4)
  show ?thesis by simp
next
  case (servers_fail x s1)
  from delete_expired_servers_frame [OF this(1)] show ?thesis by simp
next
  case (containers_fail x s1 w1 s2)
  from delete_expired_servers_frame [OF this(1)] delete_expired_containers_frame [OF this(2)]
  show ?thesis by simp
next
  case (commit_fail s1 w1 s2)
  from delete_expired_servers_frame [OF this(1)] delete_expired_containers_frame [OF this(2)]
  show ?thesis by simp
qed

text \<open>When a sweep runs to its end, where it stops otherwise, and what it leaves.\<close>

lemma sweep_calls_split:
  "sweep_calls today s =
     map server_call (expired_servers today s) @ map container_call (expired_containers today s)"
  by (simp add: sweep_calls_def expired_servers_def expired_containers_def
        server_call_def [abs_def] container_call_def [abs_def])

lemma removeAll_as_filter: "removeAll x xs = filter (\<lambda>i. i \<noteq> x) xs"
  by (induction xs) auto

lemma delete_server_None:
  "delete_server e nm node w = (None, w') \<Longrightarrow>
     nm \<in> set (instances w) \<and> \<not> cloud_fails e (DeleteServer nm node)
     \<and> instances w' = filter (\<lambda>i. i \<noteq> nm) (instances w)"
  by (auto simp: delete_server_def Let_def removeAll_as_filter split: if_splits)

lemma delete_server_Some:
  "delete_server e nm node w = (Some x, w') \<Longrightarrow>
     instances w' = instances w
     \<and> (cloud_fails e (DeleteServer nm node) \<or> nm \<notin> set (instances w))
     \<and> x = (if nm \<in> set (instances w) then ProviderError else AttributeError)"
  by (auto simp: delete_server_def Let_def split: if_splits)

lemma delete_server_absent:
  "nm \<notin> set (instances w) \<Longrightarrow>
     delete_server e nm node w = (Some AttributeError, w\<lparr>calls := calls w @ [DeleteServer nm node]\<rparr>)"
  by (simp add: delete_server_def Let_def)

lemma delete_server_present:
  "nm \<in> set (instances w) \<Longrightarrow> \<not> cloud_fails e (DeleteServer nm node) \<Longrightarrow>
     fst (delete_server e nm node w) = None"
  by (simp add: delete_server_def Let_def)

lemma delete_expired_servers_completed:
  "delete_expired_servers e es s w = (None, s', w') \<Longrightarrow>
     (\<forall>p\<in>set es. server_name p \<in> set (instances w) \<and> \<not> cloud_fails e (server_call p))
     \<and> distinct (map server_name es)
     \<and> instances w' = filter (\<lambda>i. i \<notin> set (map server_name es)) (instances w)"
proof (induction es arbitrary: s w)
  case Nil
  then show ?case by simp
next
  case (Cons sv es)
  obtain r1 w1 where d: "delete_server e (server_name sv) (node_name sv) w = (r1, w1)"
    by (cases "delete_server e (server_name sv) (node_name sv) w") auto
  with Cons.prems have r1: "r1 = None" by (cases r1) auto
  from d r1 Cons.prems
  have run: "delete_expired_servers e es (s\<lparr>servers := remove1 sv (servers s)\<rparr>) w1 = (None, s', w')"
    by simp
  from d r1 have h: "server_name sv \<in> set (instances w)"
    "\<not> cloud_fails e (server_call sv)"
    "instances w1 = filter (\<lambda>i. i \<noteq> server_name sv) (instances w)"
    using delete_server_None [of e "server_name sv" "node_name sv" w w1]
    by (simp_all add: server_call_def)
  from Cons.IH [OF run] have ih:
    "\<forall>p\<in>set es. server_name p \<in> set (instances w1) \<and> \<not> cloud_fails e (server_call p)"
    "distinct (map server_name es)"
    "instances w' = filter (\<lambda>i. i \<notin> set (map server_name es)) (instances w1)"
    by simp_all
  from ih(1) h(3) have a: "\<forall>p\<in>set es. server_name p \<in> set (instances w)
       \<and> server_name p \<noteq> server_name sv \<and> \<not> cloud_fails e (server_call p)"
    by auto
  have b: "instances w' = filter (\<lambda>i. i \<notin> set (map server_name (sv # es))) (instances w)"
    using ih(3) h(3) by (auto intro: filter_cong)
  from a have "server_name sv \<notin> set (map server_name es)" by auto
  with a b h ih(2) show ?case by auto
qed

lemma delete_expired_servers_failed:
  "delete_expired_servers e es s w = (Some x, s', w') \<Longrightarrow>
     \<exists>pre sv post. es = pre @ sv # post
       \<and> calls w' = calls w @ map server_call (pre @ [sv])
       \<and> (\<forall>p\<in>set pre. server_name p \<in> set (instances w) \<and> \<not> cloud_fails e (server_call p))
       \<and> distinct (map server_name pre)
       \<and> (cloud_fails e (server_call sv) \<or> server_name sv \<notin> set (instances w)
            \<or> server_name sv \<in> set (map server_name pre))
       \<and> instances w' = filter (\<lambda>i. i \<notin> set (map server_name pre)) (instances w)
       \<and> x = (if server_name sv \<in> set (instances w') then ProviderError else AttributeError)"
proof (induction es arbitrary: s w)
  case Nil
  then show ?case by simp
next
  case (Cons sv0 es)
  obtain r1 w1 where d: "delete_server e (server_name sv0) (node_name sv0) w = (r1, w1)"
    by (cases "delete_server e (server_name sv0) (node_name sv0) w") auto
  note f = delete_server_frame [OF d]
  show ?case
  proof (cases r1)
    case (Some y)
    with d Cons.prems have w': "w' = w1" by simp
    from delete_server_Some [OF d [unfolded Some]] w' f
    have "sv0 # es = [] @ sv0 # es
       \<and> calls w' = calls w @ map server_call ([] @ [sv0])
       \<and> (\<forall>p\<in>set []. server_name p \<in> set (instances w) \<and> \<not> cloud_fails e (server_call p))
       \<and> distinct (map server_name [])
       \<and> (cloud_fails e (server_call sv0) \<or> server_name sv0 \<notin> set (instances w)
            \<or> server_name sv0 \<in> set (map server_name []))
       \<and> instances w' = filter (\<lambda>i. i \<notin> set (map server_name [])) (instances w)
       \<and> x = (if server_name sv0 \<in> set (instances w') then ProviderError else AttributeError)"
      using d Some Cons.prems by (auto simp: server_call_def)
    then show ?thesis by blast
  next
    case None
    with d Cons.prems
    have run: "delete_expired_servers e es (s\<lparr>servers := remove1 sv0 (servers s)\<rparr>) w1 = (Some x, s', w')"
      by simp
    from delete_server_None [OF d [unfolded None]] have h: "server_name sv0 \<in> set (instances w)"
      "\<not> cloud_fails e (server_call sv0)"
      "instances w1 = filter (\<lambda>i. i \<noteq> server_name sv0) (instances w)"
      by (simp_all add: server_call_def)
    from Cons.IH [OF run] obtain pre sv post where ih: "es = pre @ sv # post"
      "calls w' = calls w1 @ map server_call (pre @ [sv])"
      "\<forall>p\<in>set pre. server_name p \<in> set (instances w1) \<and> \<not> cloud_fails e (server_call p)"
      "distinct (map server_name pre)"
      "cloud_fails e (server_call sv) \<or> server_name sv \<notin> set (instances w1)
            \<or> server_name sv \<in> set (map server_name pre)"
      "instances w' = filter (\<lambda>i. i \<notin> set (map server_name pre)) (instances w1)"
      "x = (if server_name sv \<in> set (instances w') then ProviderError else AttributeError)"
      by blast
    from ih(3) h(3) have a: "\<forall>p\<in>set pre. server_name p \<in> set (instances w)
       \<and> server_name p \<noteq> server_name sv0 \<and> \<not> cloud_fails e (server_call p)"
      by auto
    then have nin: "server_name sv0 \<notin> set (map server_name pre)" by auto
    have b: "instances w' = filter (\<lambda>i. i \<notin> set (map server_name (sv0 # pre))) (instances w)"
      using ih(6) h(3) by (auto intro: filter_cong)
    have c: "cloud_fails e (server_call sv) \<or> server_name sv \<notin> set (instances w)
            \<or> server_name sv \<in> set (map server_name (sv0 # pre))"
      using ih(5) h(3) by auto
    have "sv0 # es = (sv0 # pre) @ sv # post
       \<and> calls w' = calls w @ map server_call ((sv0 # pre) @ [sv])
       \<and> (\<forall>p\<in>set (sv0 # pre). server_name p \<in> set (instances w) \<and> \<not> cloud_fails e (server_call p))
       \<and> distinct (map server_name (sv0 # pre))
       \<and> (cloud_fails e (server_call sv) \<or> server_name sv \<notin> set (instances w)
            \<or> server_name sv \<in> set (map server_name (sv0 # pre)))
       \<and> instances w' = filter (\<lambda>i. i \<notin> set (map server_name (sv0 # pre))) (instances w)
       \<and> x = (if server_name sv \<in> set (instances w') then ProviderError else AttributeError)"
      using ih(1,2,4,7) f a nin b c h by (simp add: server_call_def)
    then show ?thesis by blast
  qed
qed

lemma delete_expired_servers_completes:
  "\<forall>p\<in>set es. server_name p \<in> set (instances w) \<and> \<not> cloud_fails e (server_call p) \<Longrightarrow>
   distinct (map server_name es) \<Longrightarrow>
   fst (delete_expired_servers e es s w) = None"
proof (induction es arbitrary: s w)
  case Nil
  then show ?case by simp
next
  case (Cons sv es)
  obtain r1 w1 where d: "delete_server e (server_name sv) (node_name sv) w = (r1, w1)"
    by (cases "delete_server e (server_name sv) (node_name sv) w") auto
  from Cons.prems have "fst (delete_server e (server_name sv) (node_name sv) w) = None"
    by (intro delete_server_present) (simp_all add: server_call_def)
  with d have r1: "r1 = None" by simp
  from delete_server_None [OF d [unfolded r1]]
  have i: "instances w1 = filter (\<lambda>i. i \<noteq> server_name sv) (instances w)" by simp
  have "fst (delete_expired_servers e es (s\<lparr>servers := remove1 sv (servers s)\<rparr>) w1) = None"
  proof (rule Cons.IH)
    show "\<forall>p\<in>set es. server_name p \<in> set (instances w1) \<and> \<not> cloud_fails e (server_call p)"
    proof
      fix p assume p: "p \<in> set es"
      then have "server_name p \<in> set (map server_name es)" by simp
      moreover from Cons.prems(2) have "server_name sv \<notin> set (map server_name es)" by simp
      ultimately have "server_name p \<noteq> server_name sv" by metis
      with p Cons.prems(1) i
      show "server_name p \<in> set (instances w1) \<and> \<not> cloud_fails e (server_call p)" by simp
    qed
    show "distinct (map server_name es)" using Cons.prems by simp
  qed
  with d r1 show ?case by simp
qed

lemma delete_expired_containers_completed:
  "delete_expired_containers e es s w = (None, s', w') \<Longrightarrow>
     (\<forall>p\<in>set es. \<not> cloud_fails e (container_call p)) \<and> instances w' = instances w"
proof (induction es arbitrary: s w)
  case Nil
  then show ?case by simp
next
  case (Cons c es)
  then show ?case
    by (auto simp: invoke_def container_call_def split: if_splits)
qed

lemma delete_expired_containers_failed:
  "delete_expired_containers e es s w = (Some x, s', w') \<Longrightarrow>
     \<exists>pre c post. es = pre @ c # post
       \<and> calls w' = calls w @ map container_call (pre @ [c])
       \<and> (\<forall>p\<in>set pre. \<not> cloud_fails e (container_call p))
       \<and> cloud_fails e (container_call c)
       \<and> instances w' = instances w \<and> x = ProviderError"
proof (induction es arbitrary: s w)
  case Nil
  then show ?case by simp
next
  case (Cons c0 es)
  show ?case
  proof (cases "cloud_fails e (container_call c0)")
    case True
    with Cons.prems have "w' = w\<lparr>calls := calls w @ [container_call c0]\<rparr>" "x = ProviderError"
      by (auto simp: invoke_def container_call_def)
    with True have "c0 # es = [] @ c0 # es
       \<and> calls w' = calls w @ map container_call ([] @ [c0])
       \<and> (\<forall>p\<in>set []. \<not> cloud_fails e (container_call p))
       \<and> cloud_fails e (container_call c0)
       \<and> instances w' = instances w \<and> x = ProviderError" by simp
    then show ?thesis by blast
  next
    case False
    with Cons.prems
    have run: "delete_expired_containers e es (s\<lparr>containers := remove1 c0 (containers s)\<rparr>)
                 (w\<lparr>calls := calls w @ [container_call c0]\<rparr>) = (Some x, s', w')"
      by (auto simp: invoke_def container_call_def)
    from Cons.IH [OF run] obtain pre c post where ih: "es = pre @ c # post"
      "calls w' = calls w @ [container_call c0] @ map container_call (pre @ [c])"
      "\<forall>p\<in>set pre. \<not> cloud_fails e (container_call p)"
      "cloud_fails e (container_call c)"
      "instances w' = instances w" "x = ProviderError"
      by auto
    with False have "c0 # es = (c0 # pre) @ c # post
       \<and> calls w' = calls w @ map container_call ((c0 # pre) @ [c])
       \<and> (\<forall>p\<in>set (c0 # pre). \<not> cloud_fails e (container_call p))
       \<and> cloud_fails e (container_call c)
       \<and> instances w' = instances w \<and> x = ProviderError" by simp
    then show ?thesis by blast
  qed
qed

lemma delete_expired_containers_completes:
  "\<forall>p\<in>set es. \<not> cloud_fails e (container_call p) \<Longrightarrow>
   fst (delete_expired_containers e es s w) = None"
  by (induction es arbitrary: s w) (auto simp: invoke_def container_call_def)

lemma sweep_completes_iff:
  "fst (delete_expired_data e today w) = None \<longleftrightarrow>
     (\<forall>p\<in>set (expired_servers today (inventory w)).
         server_name p \<in> set (instances w) \<and> \<not> cloud_fails e (server_call p))
     \<and> distinct (map server_name (expired_servers today (inventory w)))
     \<and> (\<forall>c\<in>set (expired_containers today (inventory w)). \<not> cloud_fails e (container_call c))
     \<and> \<not> commit_fails e"
  (is "?L \<longleftrightarrow> ?R")
proof
  assume ?L
  then obtain w' where run: "delete_expired_data e today w = (None, w')"
    by (cases "delete_expired_data e today w") auto
  from run show ?R
  proof (cases rule: sweep_cases)
    case (completed s1 w1 s2 w2)
    from delete_expired_servers_completed [OF completed(1)]
      delete_expired_containers_completed [OF completed(2)]
    have "(\<forall>p\<in>set (expired_servers today (inventory w)).
         server_name p \<in> set (instances w) \<and> \<not> cloud_fails e (server_call p))"
      "distinct (map server_name (expired_servers today (inventory w)))"
      "(\<forall>c\<in>set (expired_containers today (inventory w)). \<not> cloud_fails e (container_call c))"
      by (simp_all add: expired_servers_def expired_containers_def)
    moreover from run have "\<not> commit_fails e"
      by (auto simp: delete_expired_data_def Let_def split: prod.splits option.splits if_splits)
    ultimately show ?thesis by simp
  qed simp_all
next
  assume r: ?R
  obtain r1 s1 w1 where a: "delete_expired_servers e (expired_servers today (inventory w))
       (inventory w) w = (r1, s1, w1)"
    by (cases "delete_expired_servers e (expired_servers today (inventory w)) (inventory w) w") auto
  from r have "fst (delete_expired_servers e (expired_servers today (inventory w))
       (inventory w) w) = None"
    by (intro delete_expired_servers_completes) simp_all
  with a have r1: "r1 = None" by simp
  obtain r2 s2 w2 where b: "delete_expired_containers e (expired_containers today (inventory w))
       s1 w1 = (r2, s2, w2)"
    by (cases "delete_expired_containers e (expired_containers today (inventory w)) s1 w1") auto
  from r have "fst (delete_expired_containers e (expired_containers today (inventory w)) s1 w1) = None"
    by (intro delete_expired_containers_completes) simp
  with b have r2: "r2 = None" by simp
  from a b r1 r2 r show ?L
    by (simp add: delete_expired_data_def Let_def expired_servers_def expired_containers_def)
qed

lemma sweep_completed_world:
  assumes "delete_expired_data e today w = (None, w')"
  shows "w' = w\<lparr>inventory := (inventory w)\<lparr>
                  servers := filter (\<lambda>r. \<not> date_less (end_date r) today) (servers (inventory w)),
                  containers := filter (\<lambda>r. \<not> date_less (c_end_date r) today)
                                  (containers (inventory w))\<rparr>,
              instances := filter (\<lambda>i. i \<notin> set (map server_name
                                    (expired_servers today (inventory w)))) (instances w),
              calls := calls w @ sweep_calls today (inventory w)\<rparr>"
  using assms
proof (cases rule: sweep_cases)
  case (completed s1 w1 s2 w2)
  note sf = delete_expired_servers_frame [OF completed(1)]
    and cf = delete_expired_containers_frame [OF completed(2)]
  from sweep_success [OF assms] have rows:
    "servers (inventory w') = filter (\<lambda>r. \<not> date_less (end_date r) today) (servers (inventory w))"
    "containers (inventory w') =
       filter (\<lambda>r. \<not> date_less (c_end_date r) today) (containers (inventory w))"
    "calls w' = calls w @ sweep_calls today (inventory w)"
    by simp_all
  from delete_expired_servers_completed [OF completed(1)]
    delete_expired_containers_completed [OF completed(2)] completed(4)
  have inst: "instances w' = filter (\<lambda>i. i \<notin> set (map server_name
                (expired_servers today (inventory w)))) (instances w)"
    by (simp add: expired_servers_def)
  from sf cf completed(4) have rest: "flavors (inventory w') = flavors (inventory w)"
    "node_flavors (inventory w') = node_flavors (inventory w)"
    "networks (inventory w') = networks (inventory w)"
    "node_networks (inventory w') = node_networks (inventory w)"
    "logged w' = logged w"
    by simp_all
  have "inventory w' = (inventory w)\<lparr>
                  servers := filter (\<lambda>r. \<not> date_less (end_date r) today) (servers (inventory w)),
                  containers := filter (\<lambda>r. \<not> date_less (c_end_date r) today)
                                  (containers (inventory w))\<rparr>"
    using rows rest by (intro db.equality) simp_all
  with rows(3) inst rest(5) show ?thesis by (intro world.equality) simp_all
qed simp_all

lemma sweep_blocked_by_absent_instance:
  assumes "p \<in> set (servers (inventory w))" "server_name p \<notin> set (instances w)"
    "date_less (end_date p) today"
  shows "fst (delete_expired_data e today w) \<noteq> None"
proof
  assume "fst (delete_expired_data e today w) = None"
  then have "\<forall>p\<in>set (expired_servers today (inventory w)). server_name p \<in> set (instances w)"
    by (simp add: sweep_completes_iff)
  moreover from assms have "p \<in> set (expired_servers today (inventory w))"
    by (simp add: expired_servers_def)
  ultimately show False using assms(2) by blast
qed

lemma sweep_failed_shape:
  assumes "delete_expired_data e today w = (Some x, w')"
  shows "(\<exists>pre sv post. expired_servers today (inventory w) = pre @ sv # post
            \<and> calls w' = calls w @ map server_call (pre @ [sv])
            \<and> (\<forall>p\<in>set pre. server_name p \<in> set (instances w) \<and> \<not> cloud_fails e (server_call p))
            \<and> distinct (map server_name pre)
            \<and> (cloud_fails e (server_call sv) \<or> server_name sv \<notin> set (instances w)
                 \<or> server_name sv \<in> set (map server_name pre))
            \<and> instances w' = filter (\<lambda>i. i \<notin> set (map server_name pre)) (instances w)
            \<and> x = (if server_name sv \<in> set (instances w') then ProviderError else AttributeError))
       \<or> (\<exists>pre c post. expired_containers today (inventory w) = pre @ c # post
            \<and> calls w' = calls w @ map server_call (expired_servers today (inventory w))
                            @ map container_call (pre @ [c])
            \<and> (\<forall>p\<in>set (expired_servers today (inventory w)).
                  server_name p \<in> set (instances w) \<and> \<not> cloud_fails e (server_call p))
            \<and> distinct (map server_name (expired_servers today (inventory w)))
            \<and> (\<forall>p\<in>set pre. \<not> cloud_fails e (container_call p))
            \<and> cloud_fails e (container_call c)
            \<and> instances w' = filter (\<lambda>i. i \<notin> set (map server_name
                                  (expired_servers today (inventory w)))) (instances w)
            \<and> x = ProviderError)
       \<or> (x = CommitError \<and> commit_fails e
            \<and> calls w' = calls w @ sweep_calls today (inventory w)
            \<and> (\<forall>p\<in>set (expired_servers today (inventory w)).
                  server_name p \<in> set (instances w) \<and> \<not> cloud_fails e (server_call p))
            \<and> distinct (map server_name (expired_servers today (inventory w)))
            \<and> (\<forall>c\<in>set (expired_containers today (inventory w)).
                  \<not> cloud_fails e (container_call c))
            \<and> instances w' = filter (\<lambda>i. i \<notin> set (map server_name
                                  (expired_servers today (inventory w)))) (instances w))"
  using assms
proof (cases rule: sweep_cases)
  case (servers_fail y s1)
  from delete_expired_servers_failed [OF servers_fail(1)] servers_fail(2)
  show ?thesis by (simp add: expired_servers_def)
next
  case (containers_fail y s1 w1 s2)
  from delete_expired_servers_completed [OF containers_fail(1)]
    delete_expired_servers_calls [OF containers_fail(1)]
  have s: "calls w1 = calls w @ map server_call (expired_servers today (inventory w))"
    "instances w1 = filter (\<lambda>i. i \<notin> set (map server_name
                                  (expired_servers today (inventory w)))) (instances w)"
    "\<forall>p\<in>set (expired_servers today (inventory w)).
        server_name p \<in> set (instances w) \<and> \<not> cloud_fails e (server_call p)"
    "distinct (map server_name (expired_servers today (inventory w)))"
    by (simp_all add: expired_servers_def server_call_def [abs_def])
  from delete_expired_containers_failed [OF containers_fail(2)] containers_fail(3) s
  have "\<exists>pre c post. expired_containers today (inventory w) = pre @ c # post
            \<and> calls w' = calls w @ map server_call (expired_servers today (inventory w))
                            @ map container_call (pre @ [c])
            \<and> (\<forall>p\<in>set (expired_servers today (inventory w)).
                  server_name p \<in> set (instances w) \<and> \<not> cloud_fails e (server_call p))
            \<and> distinct (map server_name (expired_servers today (inventory w)))
            \<and> (\<forall>p\<in>set pre. \<not> cloud_fails e (container_call p))
            \<and> cloud_fails e (container_call c)
            \<and> instances w' = filter (\<lambda>i. i \<notin> set (map server_name
                                  (expired_servers today (inventory w)))) (instances w)
            \<and> x = ProviderError"
    by (simp add: expired_containers_def)
  then show ?thesis by blast
next
  case (commit_fail s1 w1 s2)
  from delete_expired_servers_completed [OF commit_fail(1)]
    delete_expired_servers_calls [OF commit_fail(1)]
    delete_expired_containers_completed [OF commit_fail(2)]
    delete_expired_containers_calls [OF commit_fail(2)]
    commit_fail(3,4) assms
  have "x = CommitError \<and> commit_fails e
            \<and> calls w' = calls w @ sweep_calls today (inventory w)
            \<and> (\<forall>p\<in>set (expired_servers today (inventory w)).
                  server_name p \<in> set (instances w) \<and> \<not> cloud_fails e (server_call p))
            \<and> distinct (map server_name (expired_servers today (inventory w)))
            \<and> (\<forall>c\<in>set (expired_containers today (inventory w)).
                  \<not> cloud_fails e (container_call c))
            \<and> instances w' = filter (\<lambda>i. i \<notin> set (map server_name
                                  (expired_servers today (inventory w)))) (instances w)"
    by (simp add: expired_servers_def expired_containers_def sweep_calls_def)
  then show ?thesis by blast
next
  case (completed s1 w1 s2 w2)
  with assms show ?thesis by simp
qed

subsection \<open>Rollback of a failed provisioning\<close>

text \<open>
  C1. A provisioning that fails after the shared-infrastructure steps should
  leave no rental record and should have released every shared resource it
  created. \<^verbatim>\<open>server_rent\<close> on an empty inventory creates flavor \<open>f1\<close> and isolates
  network \<open>net1\<close> on node \<open>n1\<close>. When the creation of the instance then fails,
  the handler rolls the session back and raises on the unbound \<^verbatim>\<open>floating_ip\<close>;
  when the commit of the insert fails, it rolls back, deletes the instance and
  answers 500. In both runs the inventory is left empty (as in every run that
  does not go through, see \<open>server_rent_failure_inventory\<close> and
  \<open>rental_failure_inventory\<close>), and neither \<^verbatim>\<open>network_delete\<close> nor
  \<^verbatim>\<open>delete_flavor\<close> is ever called: the network and the flavor stay at the
  provider.
\<close>

theorem server_rent_failure_releases_nothing:
  "server_rent (quiet\<lparr>cloud_fails := (\<lambda>c. c = CreateServer ''s1'' ''n1'')\<rparr>) rent_s1 fresh =
     (Raised UnboundLocalError,
      fresh\<lparr>calls := [CreateFlavor ''f1'' ''n1'',
                       NetworkIsolation ''n1'' ''net1'' ''10.0.0.0/24'',
                       CreateServer ''s1'' ''n1''],
            logged := [ProviderError]\<rparr>)
   \<and> server_rent (quiet\<lparr>commit_fails := True\<rparr>) rent_s1 fresh =
     (ErrorResponse 500 BackendInternalError,
      fresh\<lparr>calls := [CreateFlavor ''f1'' ''n1'',
                       NetworkIsolation ''n1'' ''net1'' ''10.0.0.0/24'',
                       CreateServer ''s1'' ''n1'', AllocateFloatingIp ''s1'' ''n1'',
                       DeleteServer ''s1'' ''n1''],
            logged := [CommitError]\<rparr>)"
  by (simp add: server_rent_defs scenario_defs)

subsection \<open>Duplicate names\<close>

text \<open>
  C2, as stated, fails: names are checked per table. \<^verbatim>\<open>server_rent\<close> looks for
  the name among the servers and \<^verbatim>\<open>rental\<close> among the containers, so after the
  server \<open>s1\<close> is rented, a container rental under the name \<open>s1\<close> goes through
  as well, and the inventory holds two rental records of that name.
\<close>

theorem same_name_across_kinds:
  "server_rent quiet rent_s1 fresh = (ApiResponse 201 Payload, s1_rented)
   \<and> fst (rental quiet (rent_c1\<lparr>k_container_name := ''s1''\<rparr>) s1_rented) = ApiResponse 201 Payload
   \<and> map server_name (servers (inventory (snd
        (rental quiet (rent_c1\<lparr>k_container_name := ''s1''\<rparr>) s1_rented)))) = [''s1'']
   \<and> map container_name (containers (inventory (snd
        (rental quiet (rent_c1\<lparr>k_container_name := ''s1''\<rparr>) s1_rented)))) = [''s1'']"
  by (simp add: server_rent_defs rental_defs scenario_defs)

text \<open>
  C2, amended. Two provisioning calls of the same kind with the same resource
  name, one after the other (two calls of \<^verbatim>\<open>server_rent\<close>, or two of the
  container's \<^verbatim>\<open>rental\<close>): when the first goes through, the inventory holds
  exactly one record of that kind and name, and the second, whatever else it
  asks for and however the provider behaves, is answered 400 "duplicate name"
  with the world left as it was: no controller call is made and nothing is
  written.
\<close>

theorem duplicate_name_rejected:
  "(server_rent e q w = (ApiResponse c m, v) \<longrightarrow> q_server_name q' = q_server_name q \<longrightarrow>
      length (filter (\<lambda>r. server_name r = q_server_name q) (servers (inventory v))) = 1
      \<and> server_rent e' q' v = (ErrorResponse 400 ServerNameDuplicated, v))
   \<and> (rental e k w = (ApiResponse c m, v) \<longrightarrow> k_container_name k' = k_container_name k \<longrightarrow>
      length (filter (\<lambda>r. container_name r = k_container_name k) (containers (inventory v))) = 1
      \<and> rental e' k' v = (ErrorResponse 400 ContainerNameDuplicated, v))"
proof (intro conjI impI)
  assume a: "server_rent e q w = (ApiResponse c m, v)" and b: "q_server_name q' = q_server_name q"
  from server_rent_success [OF a] obtain sv where
    f: "filter (\<lambda>r. server_name r = q_server_name q) (servers (inventory v)) = [sv]"
    by auto
  then show "length (filter (\<lambda>r. server_name r = q_server_name q) (servers (inventory v))) = 1"
    by simp
  from f b show "server_rent e' q' v = (ErrorResponse 400 ServerNameDuplicated, v)"
    by (simp add: server_rent_def)
next
  assume a: "rental e k w = (ApiResponse c m, v)" and b: "k_container_name k' = k_container_name k"
  from rental_success [OF a] obtain row where
    f: "filter (\<lambda>r. container_name r = k_container_name k) (containers (inventory v)) = [row]"
    by auto
  then show "length (filter (\<lambda>r. container_name r = k_container_name k)
                      (containers (inventory v))) = 1"
    by simp
  from f b show "rental e' k' v = (ErrorResponse 400 ContainerNameDuplicated, v)"
    by (simp add: rental_def)
qed

theorem duplicate_name_rejected_witness:
  "server_rent quiet rent_s1 fresh = (ApiResponse 201 Payload, s1_rented)
   \<and> length (filter (\<lambda>r. server_name r = ''s1'') (servers (inventory s1_rented))) = 1
   \<and> server_rent (quiet\<lparr>cloud_fails := (\<lambda>c. True)\<rparr>) (rent_s1\<lparr>q_flavor_name := ''m1''\<rparr>) s1_rented
       = (ErrorResponse 400 ServerNameDuplicated, s1_rented)
   \<and> rental quiet rent_c1 fresh = (ApiResponse 201 Payload, c1_rented)
   \<and> length (filter (\<lambda>r. container_name r = ''c1'') (containers (inventory c1_rented))) = 1
   \<and> rental (quiet\<lparr>cloud_fails := (\<lambda>c. True)\<rparr>) rent_c1 c1_rented
       = (ErrorResponse 400 ContainerNameDuplicated, c1_rented)"
proof -
  have s: "server_rent quiet rent_s1 fresh = (ApiResponse 201 Payload, s1_rented)"
    by (simp add: server_rent_defs scenario_defs)
  have k: "rental quiet rent_c1 fresh = (ApiResponse 201 Payload, c1_rented)"
    by (simp add: rental_defs scenario_defs)
  have n: "q_server_name (rent_s1\<lparr>q_flavor_name := ''m1''\<rparr>) = q_server_name rent_s1"
    "q_server_name rent_s1 = ''s1''" "k_container_name rent_c1 = ''c1''"
    by (simp_all add: rent_s1_def rent_c1_def)
  from duplicate_name_rejected
    [where e = quiet and q = rent_s1 and w = fresh and c = 201 and m = Payload
       and v = s1_rented and q' = "rent_s1\<lparr>q_flavor_name := ''m1''\<rparr>"
       and e' = "quiet\<lparr>cloud_fails := (\<lambda>c. True)\<rparr>"]
    duplicate_name_rejected
    [where e = quiet and k = rent_c1 and w = fresh and c = 201 and m = Payload
       and v = c1_rented and k' = rent_c1
       and e' = "quiet\<lparr>cloud_fails := (\<lambda>c. True)\<rparr>"]
    s k n
  show ?thesis by simp
qed

subsection \<open>The link check of the rental handlers\<close>

text \<open>
  C3. When the link of a node and a resource exists, nothing further should
  happen for that resource. The link query of the rental handlers filters on
  the resource name alone, so a resource linked on two nodes makes
  \<^verbatim>\<open>one_or_none\<close> raise. For the default flavor \<open>m1\<close>, linked on \<open>n1\<close> and \<open>n2\<close>,
  \<^verbatim>\<open>server_rent\<close> on \<open>n1\<close> ends in the flavor handler, which calls
  \<^verbatim>\<open>delete_flavor\<close> and answers 500. For the external network, linked on both
  nodes, the container's \<^verbatim>\<open>rental\<close> lets the exception escape. (With a single
  link row of the name the blocks do nothing, see \<open>network_block_linked_once\<close>
  and \<open>server_rent_flavor_linked_once\<close>.)
\<close>

theorem link_check_ignores_node:
  "server_rent quiet (rent_s1\<lparr>q_flavor_name := ''m1''\<rparr>) m1_on_two_nodes =
     (ErrorResponse 500 FlavorCreationError,
      m1_on_two_nodes\<lparr>calls := [DeleteFlavor ''m1'' ''n1''],
                      logged := [MultipleResultsFound]\<rparr>)
   \<and> rental quiet rent_c1 ext_on_two_nodes = (Raised MultipleResultsFound, ext_on_two_nodes)"
  by (simp add: server_rent_defs rental_defs scenario_defs)

subsection \<open>Default infrastructure\<close>

text \<open>
  C4. A shared resource flagged as a system default should never be deleted.
  The flavor handler of \<^verbatim>\<open>server_rent\<close> calls \<^verbatim>\<open>delete_flavor\<close> without looking at
  the flag (its sibling for networks does look): with the default flavor \<open>m1\<close>
  in the inventory and no link row, a failing \<^verbatim>\<open>create_flavor\<close> is followed by
  the deletion of \<open>m1\<close> on the node.
\<close>

theorem flavor_rollback_deletes_default:
  "f_is_default m1_default
   \<and> server_rent (quiet\<lparr>cloud_fails := (\<lambda>c. c = CreateFlavor ''m1'' ''n1'')\<rparr>)
       (rent_s1\<lparr>q_flavor_name := ''m1''\<rparr>) m1_unlinked =
     (ErrorResponse 500 FlavorCreationError,
      m1_unlinked\<lparr>calls := [CreateFlavor ''m1'' ''n1'', DeleteFlavor ''m1'' ''n1''],
                  logged := [ProviderError]\<rparr>)"
  by (simp add: server_rent_defs scenario_defs)

subsection \<open>The expiry sweep\<close>

text \<open>
  C5. A sweep should release the network and the flavor of every rental it
  reclaims. \<^verbatim>\<open>delete_expired_data\<close> deletes the row and the instance and nothing
  else: after the only server on \<open>net1\<close> is swept, the network row, its link
  and the flavor row are still in the inventory, and the one provider call is
  the deletion of the instance. (No sweep touches these tables, see
  \<open>sweep_keeps_shared_infrastructure\<close>.)
\<close>

theorem sweep_releases_nothing:
  "delete_expired_data quiet (Date 2024 1 2) one_expired =
     (None, fresh\<lparr>inventory := net1_db, calls := [DeleteServer ''s1'' ''n1'']\<rparr>)"
  by (simp add: sweep_defs scenario_defs)

subsection \<open>A sweep that fails\<close>

text \<open>
  C6, as stated, fails: with two expired servers \<open>a\<close> and \<open>b\<close>, a provider
  failure on the deletion of \<open>a\<close> ends the sweep; no call for \<open>b\<close> is made.
\<close>

theorem sweep_failure_blocks_rest:
  "delete_expired_data (quiet\<lparr>cloud_fails := (\<lambda>c. c = DeleteServer ''a'' ''n1'')\<rparr>)
       (Date 2024 1 2) two_expired =
     (Some ProviderError, two_expired\<lparr>calls := [DeleteServer ''a'' ''n1'']\<rparr>)"
  by (simp add: sweep_defs scenario_defs)

text \<open>
  C6, amended. Within one expiry sweep, a failure deleting one record's cloud
  resource ends the sweep. The provider calls made are exactly those for the
  expired records up to and including the failing one, in the order of the
  sweep (servers, then containers): no record after it is torn down. The
  servers before it were deleted at the provider and are gone from its
  instances. The transaction is rolled back, so the inventory is as before the
  sweep: the failed record, the records before it and the records after it all
  stay and are selected again by the next sweep. A server row whose instance
  is gone makes every later sweep that selects it fail.
\<close>

theorem sweep_failure_rolls_back:
  assumes "delete_expired_data e today w = (Some x, w')"
  shows "inventory w' = inventory w
     \<and> (\<exists>k. calls w' = calls w @ take k (sweep_calls today (inventory w)))
     \<and> ((\<exists>pre sv post. expired_servers today (inventory w) = pre @ sv # post
            \<and> calls w' = calls w @ map server_call (pre @ [sv])
            \<and> (\<forall>p\<in>set pre. server_name p \<in> set (instances w) \<and> \<not> cloud_fails e (server_call p))
            \<and> distinct (map server_name pre)
            \<and> (cloud_fails e (server_call sv) \<or> server_name sv \<notin> set (instances w)
                 \<or> server_name sv \<in> set (map server_name pre))
            \<and> instances w' = filter (\<lambda>i. i \<notin> set (map server_name pre)) (instances w)
            \<and> x = (if server_name sv \<in> set (instances w') then ProviderError else AttributeError))
       \<or> (\<exists>pre c post. expired_containers today (inventory w) = pre @ c # post
            \<and> calls w' = calls w @ map server_call (expired_servers today (inventory w))
                            @ map container_call (pre @ [c])
            \<and> (\<forall>p\<in>set (expired_servers today (inventory w)).
                  server_name p \<in> set (instances w) \<and> \<not> cloud_fails e (server_call p))
            \<and> distinct (map server_name (expired_servers today (inventory w)))
            \<and> (\<forall>p\<in>set pre. \<not> cloud_fails e (container_call p))
            \<and> cloud_fails e (container_call c)
            \<and> instances w' = filter (\<lambda>i. i \<notin> set (map server_name
                                  (expired_servers today (inventory w)))) (instances w)
            \<and> x = ProviderError)
       \<or> (x = CommitError \<and> commit_fails e
            \<and> calls w' = calls w @ sweep_calls today (inventory w)
            \<and> (\<forall>p\<in>set (expired_servers today (inventory w)).
                  server_name p \<in> set (instances w) \<and> \<not> cloud_fails e (server_call p))
            \<and> distinct (map server_name (expired_servers today (inventory w)))
            \<and> (\<forall>c\<in>set (expired_containers today (inventory w)).
                  \<not> cloud_fails e (container_call c))
            \<and> instances w' = filter (\<lambda>i. i \<notin> set (map server_name
                                  (expired_servers today (inventory w)))) (instances w)))
     \<and> (\<forall>p\<in>set (servers (inventory w')). \<forall>e2 t2.
           server_name p \<notin> set (instances w') \<longrightarrow> date_less (end_date p) t2 \<longrightarrow>
           fst (delete_expired_data e2 t2 w') \<noteq> None)"
proof (intro conjI)
  from sweep_failure [OF assms] show "inventory w' = inventory w"
    and "\<exists>k. calls w' = calls w @ take k (sweep_calls today (inventory w))"
    by simp_all
  show "\<forall>p\<in>set (servers (inventory w')). \<forall>e2 t2.
           server_name p \<notin> set (instances w') \<longrightarrow> date_less (end_date p) t2 \<longrightarrow>
           fst (delete_expired_data e2 t2 w') \<noteq> None"
    using sweep_blocked_by_absent_instance by blast
qed (rule sweep_failed_shape [OF assms])

theorem sweep_failure_rolls_back_witness:
  "delete_expired_data (quiet\<lparr>cloud_fails := (\<lambda>c. c = DeleteServer ''b'' ''n1'')\<rparr>)
       (Date 2024 1 2) three_expired =
     (Some ProviderError,
      three_expired\<lparr>instances := [''b'', ''c''],
                    calls := [DeleteServer ''a'' ''n1'', DeleteServer ''b'' ''n1'']\<rparr>)
   \<and> inventory (three_expired\<lparr>instances := [''b'', ''c''],
                    calls := [DeleteServer ''a'' ''n1'', DeleteServer ''b'' ''n1'']\<rparr>) =
       inventory three_expired
   \<and> fst (delete_expired_data quiet (Date 2024 1 3)
            (three_expired\<lparr>instances := [''b'', ''c''],
                    calls := [DeleteServer ''a'' ''n1'', DeleteServer ''b'' ''n1'']\<rparr>)) \<noteq> None"
proof -
  let ?w' = "three_expired\<lparr>instances := [''b'', ''c''],
                    calls := [DeleteServer ''a'' ''n1'', DeleteServer ''b'' ''n1'']\<rparr>"
  have h: "delete_expired_data (quiet\<lparr>cloud_fails := (\<lambda>c. c = DeleteServer ''b'' ''n1'')\<rparr>)
       (Date 2024 1 2) three_expired = (Some ProviderError, ?w')"
    by (simp add: sweep_defs scenario_defs)
  note t = sweep_failure_rolls_back [OF h]
  have a: "server_row ''a'' (Date 2024 1 1) \<in> set (servers (inventory ?w'))"
    "server_name (server_row ''a'' (Date 2024 1 1)) \<notin> set (instances ?w')"
    "date_less (end_date (server_row ''a'' (Date 2024 1 1))) (Date 2024 1 3)"
    by (simp_all add: scenario_defs)
  from t have "inventory ?w' = inventory three_expired" by blast
  moreover from t a have "fst (delete_expired_data quiet (Date 2024 1 3) ?w') \<noteq> None"
    by blast
  ultimately show ?thesis using h by simp
qed

subsection \<open>What a sweep reclaims\<close>

text \<open>
  C7. The sweep reclaims exactly the records whose \<^verbatim>\<open>end_date\<close> is strictly
  before the day of the sweep. It runs to its end exactly when the provider
  holds the instance of every expired server and refuses none of the
  deletions, no two expired servers share a name, and the commit goes
  through. Then the world afterwards is determined: the inventory keeps
  exactly the servers and containers that are not expired, the instances of
  the expired servers are gone, and the provider was called once for each
  expired server and container. Whatever the outcome, the records that are
  not expired are in the inventory afterwards as before, and every provider
  call made is one of the calls for expired records.
\<close>

theorem sweep_reclaims_exactly_expired:
  assumes "delete_expired_data e today w = (res, w')"
  shows "(res = None \<longleftrightarrow>
            (\<forall>p\<in>set (expired_servers today (inventory w)).
                server_name p \<in> set (instances w) \<and> \<not> cloud_fails e (server_call p))
            \<and> distinct (map server_name (expired_servers today (inventory w)))
            \<and> (\<forall>c\<in>set (expired_containers today (inventory w)).
                  \<not> cloud_fails e (container_call c))
            \<and> \<not> commit_fails e)
       \<and> (res = None \<longrightarrow>
            w' = w\<lparr>inventory := (inventory w)\<lparr>
                      servers := filter (\<lambda>r. \<not> date_less (end_date r) today)
                                   (servers (inventory w)),
                      containers := filter (\<lambda>r. \<not> date_less (c_end_date r) today)
                                      (containers (inventory w))\<rparr>,
                  instances := filter (\<lambda>i. i \<notin> set (map server_name
                                        (expired_servers today (inventory w)))) (instances w),
                  calls := calls w @ sweep_calls today (inventory w)\<rparr>)
       \<and> (res = None \<longrightarrow>
            servers (inventory w') =
              filter (\<lambda>r. \<not> date_less (end_date r) today) (servers (inventory w))
          \<and> containers (inventory w') =
              filter (\<lambda>r. \<not> date_less (c_end_date r) today) (containers (inventory w))
          \<and> calls w' = calls w @ sweep_calls today (inventory w))
       \<and> filter (\<lambda>r. \<not> date_less (end_date r) today) (servers (inventory w')) =
           filter (\<lambda>r. \<not> date_less (end_date r) today) (servers (inventory w))
       \<and> filter (\<lambda>r. \<not> date_less (c_end_date r) today) (containers (inventory w')) =
           filter (\<lambda>r. \<not> date_less (c_end_date r) today) (containers (inventory w))
       \<and> (\<exists>k. calls w' = calls w @ take k (sweep_calls today (inventory w)))"
proof -
  from assms have iff: "res = None \<longleftrightarrow>
            (\<forall>p\<in>set (expired_servers today (inventory w)).
                server_name p \<in> set (instances w) \<and> \<not> cloud_fails e (server_call p))
            \<and> distinct (map server_name (expired_servers today (inventory w)))
            \<and> (\<forall>c\<in>set (expired_containers today (inventory w)).
                  \<not> cloud_fails e (container_call c))
            \<and> \<not> commit_fails e"
    using sweep_completes_iff [of e today w] by simp
  show ?thesis
  proof (cases res)
    case None
    with assms have run: "delete_expired_data e today w = (None, w')" by simp
    note s = sweep_success [OF run] and x = sweep_completed_world [OF run]
    from s have "calls w' = calls w @
        take (length (sweep_calls today (inventory w))) (sweep_calls today (inventory w))"
      by simp
    then have k: "\<exists>k. calls w' = calls w @ take k (sweep_calls today (inventory w))" by blast
    from s have f: "filter (\<lambda>r. \<not> date_less (end_date r) today) (servers (inventory w')) =
           filter (\<lambda>r. \<not> date_less (end_date r) today) (servers (inventory w))"
      "filter (\<lambda>r. \<not> date_less (c_end_date r) today) (containers (inventory w')) =
           filter (\<lambda>r. \<not> date_less (c_end_date r) today) (containers (inventory w))"
      by simp_all
    from iff s x k f show ?thesis by blast
  next
    case (Some y)
    with assms have "delete_expired_data e today w = (Some y, w')" by simp
    from sweep_failure [OF this] have "inventory w' = inventory w"
      "\<exists>k. calls w' = calls w @ take k (sweep_calls today (inventory w))"
      by simp_all
    with iff Some show ?thesis by simp
  qed
qed

theorem sweep_reclaims_exactly_expired_witness:
  "date_less (Date 2024 1 1) (Date 2024 1 2) \<and> \<not> date_less (Date 2024 6 1) (Date 2024 1 2)
   \<and> delete_expired_data quiet (Date 2024 1 2) mixed =
       (None,
        mixed\<lparr>inventory := net1_db\<lparr>servers := [server_row ''young'' (Date 2024 6 1)],
                                  containers := [container_row ''c_young'' (Date 2024 6 1)]\<rparr>,
              instances := [''young''],
              calls := [DeleteServer ''old'' ''n1'', DeleteContainer ''c_old'' ''n1'']\<rparr>)"
proof -
  let ?run = "delete_expired_data quiet (Date 2024 1 2) mixed"
  have h: "?run = (fst ?run, snd ?run)" by simp
  note t = sweep_reclaims_exactly_expired [OF h]
  have c: "(\<forall>p\<in>set (expired_servers (Date 2024 1 2) (inventory mixed)).
                server_name p \<in> set (instances mixed) \<and> \<not> cloud_fails quiet (server_call p))
            \<and> distinct (map server_name (expired_servers (Date 2024 1 2) (inventory mixed)))
            \<and> (\<forall>c\<in>set (expired_containers (Date 2024 1 2) (inventory mixed)).
                  \<not> cloud_fails quiet (container_call c))
            \<and> \<not> commit_fails quiet"
    by (simp add: expired_servers_def expired_containers_def scenario_defs)
  with t have r: "fst ?run = None" by blast
  with t have "snd ?run = mixed\<lparr>inventory := (inventory mixed)\<lparr>
                      servers := filter (\<lambda>r. \<not> date_less (end_date r) (Date 2024 1 2))
                                   (servers (inventory mixed)),
                      containers := filter (\<lambda>r. \<not> date_less (c_end_date r) (Date 2024 1 2))
                                      (containers (inventory mixed))\<rparr>,
                  instances := filter (\<lambda>i. i \<notin> set (map server_name
                                   (expired_servers (Date 2024 1 2) (inventory mixed))))
                                 (instances mixed),
                  calls := calls mixed @ sweep_calls (Date 2024 1 2) (inventory mixed)\<rparr>"
    by blast
  then have "snd ?run = mixed\<lparr>inventory := net1_db\<lparr>servers := [server_row ''young'' (Date 2024 6 1)],
                                  containers := [container_row ''c_young'' (Date 2024 6 1)]\<rparr>,
              instances := [''young''],
              calls := [DeleteServer ''old'' ''n1'', DeleteContainer ''c_old'' ''n1'']\<rparr>"
    by (simp add: expired_servers_def sweep_calls_def scenario_defs)
  with r have "?run = (None,
        mixed\<lparr>inventory := net1_db\<lparr>servers := [server_row ''young'' (Date 2024 6 1)],
                                  containers := [container_row ''c_young'' (Date 2024 6 1)]\<rparr>,
              instances := [''young''],
              calls := [DeleteServer ''old'' ''n1'', DeleteContainer ''c_old'' ''n1'']\<rparr>)"
    by (metis prod.collapse)
  then show ?thesis by simp
qed

subsection \<open>Returning a server whose instance is gone\<close>

text \<open>
  C8, as stated, fails: \<^verbatim>\<open>server_return\<close> for a rental whose instance the provider
  does not hold answers 500, and the row stays in the inventory.
\<close>

theorem return_of_absent_instance_fails:
  "server_return quiet ''s1'' ''10.0.0.1'' ''pw'' [] orphan =
     (ErrorResponse 500 BackendInternalError,
      orphan\<lparr>calls := [DeleteServer ''s1'' ''n1''], logged := [AttributeError]\<rparr>)"
  by (simp add: server_return_def delete_server_def log_error_def Let_def scenario_defs)

text \<open>
  C8, amended. Calling \<^verbatim>\<open>server_return\<close> with valid credentials on a rental whose
  instance the provider does not hold fails: \<^verbatim>\<open>delete_server\<close> raises on the
  missing instance, the handler logs it and answers 500, and the rental record
  stays in the inventory, which is not touched.
\<close>

theorem return_needs_instance:
  assumes "validate_ssh_key e host nm key pw"
    and "one (filter (\<lambda>r. server_name r = nm) (servers (inventory w))) = Inr sv"
    and "nm \<notin> set (instances w)"
  shows "server_return e nm host pw key w =
     (ErrorResponse 500 BackendInternalError,
      w\<lparr>calls := calls w @ [DeleteServer nm (node_name sv)],
        logged := logged w @ [AttributeError]\<rparr>)"
  using assms by (simp add: server_return_def delete_server_def log_error_def Let_def)

theorem return_needs_instance_witness:
  "validate_ssh_key quiet ''10.0.0.1'' ''s1'' [] ''pw''
   \<and> one (filter (\<lambda>r. server_name r = ''s1'') (servers (inventory orphan))) =
       Inr (server_row ''s1'' (Date 2024 6 1))
   \<and> ''s1'' \<notin> set (instances orphan)
   \<and> server_return quiet ''s1'' ''10.0.0.1'' ''pw'' [] orphan =
     (ErrorResponse 500 BackendInternalError,
      orphan\<lparr>calls := calls orphan @ [DeleteServer ''s1'' (node_name (server_row ''s1'' (Date 2024 6 1)))],
        logged := logged orphan @ [AttributeError]\<rparr>)"
proof -
  have a: "validate_ssh_key quiet ''10.0.0.1'' ''s1'' [] ''pw''"
    by (simp add: quiet_def)
  have b: "one (filter (\<lambda>r. server_name r = ''s1'') (servers (inventory orphan))) =
       Inr (server_row ''s1'' (Date 2024 6 1))"
    by (simp add: scenario_defs)
  have c: "''s1'' \<notin> set (instances orphan)"
    by (simp add: scenario_defs)
  from return_needs_instance [OF a b c] a b c show ?thesis by simp
qed

subsection \<open>Extension\<close>

text \<open>
  C9. A successful \<^verbatim>\<open>server_renew\<close> (of \<^verbatim>\<open>server_router\<close> or of \<^verbatim>\<open>db_router\<close>)
  changes the \<^verbatim>\<open>end_date\<close> of the one record of that name and nothing else: the
  record keeps every other field, the other servers, the other tables, the
  provider and the log are as before. When no record has the name, the lookup
  raises \<^verbatim>\<open>NoResultFound\<close>, which is answered with the error reply (and logged,
  in \<^verbatim>\<open>server_router\<close>), and nothing else is changed.
\<close>

theorem extension_changes_end_date_only:
  "(server_renew e nm host ed pw key w = (ApiResponse c m, w') \<longrightarrow>
      (\<exists>us sv vs d. servers (inventory w) = us @ sv # vs \<and> server_name sv = nm
         \<and> (\<forall>r\<in>set (us @ vs). server_name r \<noteq> nm)
         \<and> parse_date e ed = Inr d
         \<and> w' = w\<lparr>inventory := (inventory w)\<lparr>servers := us @ sv\<lparr>end_date := d\<rparr> # vs\<rparr>\<rparr>))
   \<and> (db_server_renew e nm host ed pw key w = (ApiResponse 200 m, w') \<longrightarrow>
      (\<exists>us sv vs d. servers (inventory w) = us @ sv # vs \<and> server_name sv = nm
         \<and> (\<forall>r\<in>set (us @ vs). server_name r \<noteq> nm)
         \<and> parse_date e ed = Inr d
         \<and> w' = w\<lparr>inventory := (inventory w)\<lparr>servers := us @ sv\<lparr>end_date := d\<rparr> # vs\<rparr>\<rparr>))
   \<and> (filter (\<lambda>r. server_name r = nm) (servers (inventory w)) = [] \<longrightarrow>
        validate_ssh_key e host nm key pw \<longrightarrow>
        server_renew e nm host ed pw key w =
          (ErrorResponse 500 BackendInternalError, w\<lparr>logged := logged w @ [NoResultFound]\<rparr>)
        \<and> db_server_renew e nm host ed pw key w = (ApiResponse 500 ExceptionOccurred, w))"
  using server_renew_success [of e nm host ed pw key w c m w']
    db_server_renew_success [of e nm host ed pw key w m w']
    server_renew_missing [of nm w e host ed pw key]
    db_server_renew_missing [of nm w e host ed pw key]
  by simp

theorem extension_changes_end_date_only_witness:
  "server_renew quiet ''old'' ''10.0.0.1'' ''2024-03-01'' ''pw'' [] old_and_young =
     (ApiResponse 200 ExtensionDone,
      old_and_young\<lparr>inventory := net1_db\<lparr>servers :=
        [server_row ''old'' (Date 2024 3 1), server_row ''young'' (Date 2024 6 1)]\<rparr>\<rparr>)
   \<and> db_server_renew quiet ''old'' ''10.0.0.1'' ''2024-03-01'' ''pw'' [] old_and_young =
     (ApiResponse 200 ExtensionDone,
      old_and_young\<lparr>inventory := net1_db\<lparr>servers :=
        [server_row ''old'' (Date 2024 3 1), server_row ''young'' (Date 2024 6 1)]\<rparr>\<rparr>)
   \<and> (\<exists>us sv vs d. servers (inventory old_and_young) = us @ sv # vs \<and> server_name sv = ''old''
         \<and> (\<forall>r\<in>set (us @ vs). server_name r \<noteq> ''old'')
         \<and> parse_date quiet ''2024-03-01'' = Inr d
         \<and> old_and_young\<lparr>inventory := net1_db\<lparr>servers :=
              [server_row ''old'' (Date 2024 3 1), server_row ''young'' (Date 2024 6 1)]\<rparr>\<rparr> =
            old_and_young\<lparr>inventory := (inventory old_and_young)\<lparr>servers :=
              us @ sv\<lparr>end_date := d\<rparr> # vs\<rparr>\<rparr>)
   \<and> server_renew quiet ''nobody'' ''10.0.0.1'' ''2024-03-01'' ''pw'' [] old_and_young =
       (ErrorResponse 500 BackendInternalError,
        old_and_young\<lparr>logged := logged old_and_young @ [NoResultFound]\<rparr>)
   \<and> db_server_renew quiet ''nobody'' ''10.0.0.1'' ''2024-03-01'' ''pw'' [] old_and_young =
       (ApiResponse 500 ExceptionOccurred, old_and_young)"
proof -
  have a: "server_renew quiet ''old'' ''10.0.0.1'' ''2024-03-01'' ''pw'' [] old_and_young =
     (ApiResponse 200 ExtensionDone,
      old_and_young\<lparr>inventory := net1_db\<lparr>servers :=
        [server_row ''old'' (Date 2024 3 1), server_row ''young'' (Date 2024 6 1)]\<rparr>\<rparr>)"
    by (simp add: server_renew_def parse_date_def make_date_def days_in_month_def
          scenario_defs)
  have a': "db_server_renew quiet ''old'' ''10.0.0.1'' ''2024-03-01'' ''pw'' [] old_and_young =
     (ApiResponse 200 ExtensionDone,
      old_and_young\<lparr>inventory := net1_db\<lparr>servers :=
        [server_row ''old'' (Date 2024 3 1), server_row ''young'' (Date 2024 6 1)]\<rparr>\<rparr>)"
    by (simp add: db_server_renew_def parse_date_def make_date_def days_in_month_def
          scenario_defs)
  have b: "filter (\<lambda>r. server_name r = ''nobody'') (servers (inventory old_and_young)) = []"
    by (simp add: scenario_defs)
  have c: "validate_ssh_key quiet ''10.0.0.1'' ''nobody'' [] ''pw''"
    by (simp add: quiet_def)
  from extension_changes_end_date_only
         [where e = quiet and nm = "''old''" and host = "''10.0.0.1''" and ed = "''2024-03-01''"
            and pw = "''pw''" and key = "[]" and w = old_and_young and c = 200
            and m = ExtensionDone]
       extension_changes_end_date_only
         [where e = quiet and nm = "''nobody''" and host = "''10.0.0.1''"
            and ed = "''2024-03-01''" and pw = "''pw''" and key = "[]" and w = old_and_young]
       a a' b c
  show ?thesis by simp
qed

subsection \<open>The container's password\<close>

text \<open>
  C10. \<^verbatim>\<open>container_return\<close> on an existing container with a password whose digest
  differs from the stored one is answered 400, and the world (inventory,
  provider, calls) is left as it was. A \<^verbatim>\<open>rental\<close> that goes through appends
  one container record, whose \<^verbatim>\<open>password\<close> column is the digest of the password
  of the request; no path stores the password itself.
\<close>

theorem container_password_check:
  "(one (filter (\<lambda>c. container_name c = r_container_name r) (containers (inventory w))) = Inr c
      \<longrightarrow> sha256_hexdigest e (r_password r) \<noteq> password c
      \<longrightarrow> container_return e r w = (ErrorResponse 400 PasswordMismatch, w))
   \<and> (rental e k w = (ApiResponse cd m, w') \<longrightarrow>
        (\<exists>row. containers (inventory w') = containers (inventory w) @ [row]
           \<and> container_name row = k_container_name k
           \<and> password row = sha256_hexdigest e (k_password k)))"
proof (intro conjI impI)
  assume "one (filter (\<lambda>c. container_name c = r_container_name r) (containers (inventory w))) = Inr c"
    and "sha256_hexdigest e (r_password r) \<noteq> password c"
  then show "container_return e r w = (ErrorResponse 400 PasswordMismatch, w)"
    by (simp add: container_return_def)
next
  assume "rental e k w = (ApiResponse cd m, w')"
  from rental_success [OF this]
  show "\<exists>row. containers (inventory w') = containers (inventory w) @ [row]
           \<and> container_name row = k_container_name k
           \<and> password row = sha256_hexdigest e (k_password k)"
    by blast
qed

theorem container_password_check_witness:
  "rental quiet rent_c1 fresh = (ApiResponse 201 Payload, c1_rented)
   \<and> (\<exists>row. containers (inventory c1_rented) = containers (inventory fresh) @ [row]
         \<and> container_name row = k_container_name rent_c1
         \<and> password row = sha256_hexdigest quiet (k_password rent_c1))
   \<and> sha256_hexdigest quiet ''bad'' \<noteq> password c1_row
   \<and> container_return quiet \<lparr>r_container_name = ''c1'', r_password = ''bad''\<rparr> c1_rented =
       (ErrorResponse 400 PasswordMismatch, c1_rented)"
proof -
  have a: "rental quiet rent_c1 fresh = (ApiResponse 201 Payload, c1_rented)"
    by (simp add: rental_defs scenario_defs)
  have b: "one (filter (\<lambda>c. container_name c =
                  r_container_name \<lparr>r_container_name = ''c1'', r_password = ''bad''\<rparr>)
             (containers (inventory c1_rented))) = Inr c1_row"
    by (simp add: scenario_defs)
  have c: "sha256_hexdigest quiet (r_password \<lparr>r_container_name = ''c1'', r_password = ''bad''\<rparr>)
             \<noteq> password c1_row"
    by (simp add: scenario_defs)
  from container_password_check
         [where r = "\<lparr>r_container_name = ''c1'', r_password = ''bad''\<rparr>" and w = c1_rented
            and c = c1_row and e = quiet]
       container_password_check
         [where e = quiet and k = rent_c1 and w = fresh and cd = 201 and m = Payload
            and w' = c1_rented]
       a b c
  show ?thesis by simp
qed

end
